theory Spec2Isabelle
  imports Main
begin

section \<open>Data model of the relation lifecycle engine (package state, relation.go)\<close>

text \<open>
  Modelled from the spec: the type \<open>Life\<close> is declared in another file of the package.
  Section 3 gives it as the enumeration Alive, Dying, Dead; relation.go uses \<open>Alive\<close>
  and \<open>Dying\<close>.
\<close>

datatype Life = Alive | Dying | Dead

text \<open>
  The roles of a charm relation (package charm); relation.go only compares a role with
  \<open>RolePeer\<close>.
\<close>

datatype RelationRole = RoleProvider | RoleRequirer | RolePeer

text \<open>
  Of an \<open>Endpoint\<close>, declared in another file of the package, the functions below read
  the application name and the role.
\<close>

record Endpoint =
  ApplicationName :: string
  Role :: RelationRole

text \<open>
  \<open>relationDoc\<close>, field by field. The field \<open>Id\<close> of the source is \<open>Id_rel\<close> here
  (\<open>Id\<close> is the identity relation of HOL). Go's \<open>int\<close> fields are only compared and
  printed, never computed with, so they are \<open>int\<close>.
\<close>

record relationDoc =
  DocID :: string
  Key :: string
  ModelUUID :: string
  Id_rel :: int
  Endpoints :: "Endpoint list"
  Life :: Life
  UnitCount :: int

text \<open>
  The documents of local and remote applications are declared in other files of the
  package; here they have the fields that the queries and assertions of relation.go
  mention (\<open>_id\<close>, \<open>name\<close>, \<open>life\<close>, \<open>unitcount\<close>, \<open>relationcount\<close>).
\<close>

record applicationDoc =
  AppDocID :: string
  AppName :: string
  AppLife :: Life
  AppUnitCount :: int
  AppRelationCount :: int

record remoteApplicationDoc =
  RemoteDocID :: string
  RemoteName :: string
  RemoteLife :: Life
  RemoteRelationCount :: int

subsection \<open>Errors\<close>

text \<open>
  Errors are values. \<open>ErrNotFound\<close> is mgo.ErrNotFound, \<open>ErrAborted\<close> is txn.ErrAborted,
  \<open>ErrNoOperations\<close> and \<open>ErrExcessiveContention\<close> are jujutxn's, \<open>StoreError\<close> is any
  other error of the database driver. \<open>NotFoundf\<close>, \<open>Errorf\<close>, \<open>Annotatef\<close> and \<open>Trace\<close>
  are the constructors of github.com/juju/errors; a message is kept as its format string
  and arguments.
\<close>

datatype error =
    ErrNotFound
  | ErrAborted
  | ErrNoOperations
  | ErrExcessiveContention
  | errAlreadyDying
  | ErrChangeComplete
  | StoreError string
  | NotFoundf string "string list"
  | Errorf string "string list"
  | Annotatef error string "string list"
  | Trace error

text \<open>errors.IsNotFound looks at the cause of the error.\<close>

fun IsNotFound :: "error \<Rightarrow> bool" where
  "IsNotFound (NotFoundf f args) = True"
| "IsNotFound (Annotatef e f args) = IsNotFound e"
| "IsNotFound (Trace e) = IsNotFound e"
| "IsNotFound e = False"

subsection \<open>Documents, assertions and transaction operations\<close>

text \<open>
  The values that occur in the \<open>bson.D\<close> documents of relation.go: integers, strings,
  lives, and the two operator documents \<open>{$gt: n}\<close> and \<open>{$regex: p}\<close>.
\<close>

datatype bval = BInt int | BStr string | BLife Life | BGt int | BRegex string

type_synonym bsonD = "(string \<times> bval) list"

text \<open>
  The \<open>Assert\<close> field of a \<open>txn.Op\<close>: absent, one of the two constants of package txn, a
  \<open>bson.D\<close> of field conditions, or the document \<open>{$or: [d1, d2, ...]}\<close>.
\<close>

datatype assertion = NoAssert | DocExists | DocMissing | AssertD bsonD | AssertOr "bsonD list"

text \<open>The \<open>Update\<close> field: absent, \<open>{$set: d}\<close> or \<open>{$inc: {field: n, ...}}\<close>.\<close>

datatype update = NoUpdate | UpdateSet bsonD | UpdateInc "(string \<times> int) list"

record Op =
  opC :: string
  opId :: string
  opAssert :: assertion
  opInsert :: "bsonD option"
  opUpdate :: update
  opRemove :: bool

text \<open>
  The names of the collections and the kind of the settings cleanup are constants of other
  files of the package. The theorems mention them by name only; the strings matter only
  in that they differ.
\<close>

definition relationsC :: string where "relationsC = ''relations''"
definition applicationsC :: string where "applicationsC = ''applications''"
definition remoteApplicationsC :: string where "remoteApplicationsC = ''remoteApplications''"
definition settingsC :: string where "settingsC = ''settings''"

definition cleanupRelationSettings :: string where
  "cleanupRelationSettings = ''relationSettings''"

text \<open>
  Modelled from the spec: \<open>isAliveDoc\<close> is declared in another file of the package. It is
  the assertion of section 4.1 that a document is alive, \<open>bson.D{{"life", Alive}}\<close>; the
  test at the end of the source file reads the \<open>life\<close> field of such an assertion and
  compares it with \<open>Alive\<close>.
\<close>

definition isAliveDoc :: bsonD where
  "isAliveDoc = [(''life'', BLife Alive)]"

subsection \<open>The store and the collaborators\<close>

text \<open>
  The contents of the database that relation.go reads: the documents of four collections
  (of the settings only the ids are read), and a list that gives, for a collection whose
  queries fail, the error they fail with.
\<close>

record State =
  relations :: "relationDoc list"
  applications :: "applicationDoc list"
  remoteApplications :: "remoteApplicationDoc list"
  settings :: "string list"
  failing :: "(string \<times> error) list"

type_synonym Database = State

text \<open>
  What relation.go calls and does not define itself is a parameter:
  \<open>docID\<close> (the identity-formatting convention), the regular expression matcher of the
  store, names.UnitApplication, applicationByName (of the entity it returns only
  \<open>IsRemote\<close> is used), the removeOps of the two kinds of application, newCleanupOp, and
  the submission of one transaction (\<open>None\<close> when it commits, \<open>Some ErrAborted\<close> when an
  assertion fails, any other error otherwise).
\<close>

record env =
  docID :: "string \<Rightarrow> string"
  regexMatch :: "string \<Rightarrow> string \<Rightarrow> bool"
  UnitApplication :: "string \<Rightarrow> error + string"
  applicationByName :: "State \<Rightarrow> string \<Rightarrow> error + bool"
  applicationRemoveOps :: "State \<Rightarrow> applicationDoc \<Rightarrow> bsonD \<Rightarrow> error + Op list"
  remoteApplicationRemoveOps :: "State \<Rightarrow> remoteApplicationDoc \<Rightarrow> bsonD \<Rightarrow> Op list"
  newCleanupOp :: "string \<Rightarrow> string \<Rightarrow> Op"
  runTransaction :: "State \<Rightarrow> Op list \<Rightarrow> error option \<times> State"

subsection \<open>Queries\<close>

text \<open>
  When a document satisfies a \<open>bson.D\<close> of conditions: every listed field has the listed
  value, is greater than the bound of \<open>$gt\<close>, or matches the pattern of \<open>$regex\<close>.
\<close>

fun condHolds :: "(string \<Rightarrow> string \<Rightarrow> bool) \<Rightarrow> bval \<Rightarrow> bval option \<Rightarrow> bool" where
  "condHolds rx (BGt n) (Some (BInt v)) = (n < v)"
| "condHolds rx (BGt n) v = False"
| "condHolds rx (BRegex p) (Some (BStr s)) = rx p s"
| "condHolds rx (BRegex p) v = False"
| "condHolds rx c v = (v = Some c)"

definition matchesD :: "(string \<Rightarrow> string \<Rightarrow> bool) \<Rightarrow> bsonD \<Rightarrow> bsonD \<Rightarrow> bool" where
  "matchesD rx q flds = list_all (\<lambda>(k, c). condHolds rx c (map_of flds k)) q"

text \<open>When an existing document, given by its fields, satisfies the assertion of an operation.\<close>

fun assertHolds :: "(string \<Rightarrow> string \<Rightarrow> bool) \<Rightarrow> assertion \<Rightarrow> bsonD \<Rightarrow> bool" where
  "assertHolds rx (AssertD q) flds = matchesD rx q flds"
| "assertHolds rx (AssertOr qs) flds = list_ex (\<lambda>q. matchesD rx q flds) qs"
| "assertHolds rx DocMissing flds = False"
| "assertHolds rx a flds = True"

definition applicationFields :: "applicationDoc \<Rightarrow> bsonD" where
  "applicationFields d =
     [(''_id'', BStr (AppDocID d)), (''name'', BStr (AppName d)), (''life'', BLife (AppLife d)),
      (''unitcount'', BInt (AppUnitCount d)), (''relationcount'', BInt (AppRelationCount d))]"

definition remoteApplicationFields :: "remoteApplicationDoc \<Rightarrow> bsonD" where
  "remoteApplicationFields d =
     [(''_id'', BStr (RemoteDocID d)), (''name'', BStr (RemoteName d)),
      (''life'', BLife (RemoteLife d)), (''relationcount'', BInt (RemoteRelationCount d))]"

text \<open>
  Modelled from the spec: \<open>getCollection\<close> is defined in another file of the package. The
  collection it returns is scoped to the model: a string given for \<open>_id\<close> in a query is
  a local id, and the document looked up is the one whose id \<open>docID\<close> makes of it (the
  identity-formatting convention of section 6, which the operations apply themselves with
  \<open>st.docID\<close>).
\<close>

fun mungeElem :: "env \<Rightarrow> string \<times> bval \<Rightarrow> string \<times> bval" where
  "mungeElem E (k, BStr s) = (if k = ''_id'' then (k, BStr (docID E s)) else (k, BStr s))"
| "mungeElem E (k, v) = (k, v)"

definition mungeQuery :: "env \<Rightarrow> bsonD \<Rightarrow> bsonD" where
  "mungeQuery E q = map (mungeElem E) q"

text \<open>\<open>relations.FindId(id).One(&doc)\<close>; the id of a relation snapshot is a document id already.\<close>

definition relationsFindId :: "State \<Rightarrow> string \<Rightarrow> error + relationDoc" where
  "relationsFindId st i =
     (case map_of (failing st) relationsC of
        Some e \<Rightarrow> Inl e
      | None \<Rightarrow>
          (case find (\<lambda>d. DocID d = i) (relations st) of
             None \<Rightarrow> Inl ErrNotFound
           | Some d \<Rightarrow> Inr d))"

text \<open>\<open>applications.Find(q).One(&doc)\<close> and the same on the remote applications.\<close>

definition applicationsFindOne :: "env \<Rightarrow> State \<Rightarrow> bsonD \<Rightarrow> error + applicationDoc" where
  "applicationsFindOne E st q =
     (case map_of (failing st) applicationsC of
        Some e \<Rightarrow> Inl e
      | None \<Rightarrow>
          (case find (\<lambda>d. matchesD (regexMatch E) (mungeQuery E q) (applicationFields d))
                  (applications st) of
             None \<Rightarrow> Inl ErrNotFound
           | Some d \<Rightarrow> Inr d))"

definition remoteApplicationsFindOne ::
  "env \<Rightarrow> State \<Rightarrow> bsonD \<Rightarrow> error + remoteApplicationDoc" where
  "remoteApplicationsFindOne E st q =
     (case map_of (failing st) remoteApplicationsC of
        Some e \<Rightarrow> Inl e
      | None \<Rightarrow>
          (case find (\<lambda>d. matchesD (regexMatch E) (mungeQuery E q) (remoteApplicationFields d))
                  (remoteApplications st) of
             None \<Rightarrow> Inl ErrNotFound
           | Some d \<Rightarrow> Inr d))"

text \<open>\<open>settings.Find(sel).Select({_id: 1}).All(&docs)\<close>: the ids that satisfy \<open>sel\<close>, in order.\<close>

definition settingsFindIds :: "env \<Rightarrow> Database \<Rightarrow> bsonD \<Rightarrow> error + string list" where
  "settingsFindIds E db sel =
     (case map_of (failing db) settingsC of
        Some e \<Rightarrow> Inl e
      | None \<Rightarrow> Inr (filter (\<lambda>i. matchesD (regexMatch E) sel [(''_id'', BStr i)]) (settings db)))"

section \<open>Refresh\<close>

definition Refresh :: "State \<Rightarrow> relationDoc \<Rightarrow> error option \<times> relationDoc" where
  "Refresh st r =
     (case relationsFindId st (DocID r) of
        Inl e \<Rightarrow>
          (if e = ErrNotFound then (Some (NotFoundf ''relation %v'' [Key r]), r)
           else (Some (Annotatef e ''cannot refresh relation %v'' [Key r]), r))
      | Inr doc \<Rightarrow>
          (if Id_rel r \<noteq> Id_rel doc then (Some (NotFoundf ''relation %v'' [Key r]), r)
           else (None, doc)))"

section \<open>The operations that destroy and remove a relation\<close>

text \<open>\<open>fmt.Sprintf("%d", i)\<close>: the decimal digits of an integer, with a sign when negative.\<close>

fun digits :: "nat \<Rightarrow> string" where
  "digits n =
     (if n < 10 then [''0123456789'' ! n]
      else digits (n div 10) @ [''0123456789'' ! (n mod 10)])"

declare digits.simps [simp del]

definition Sprint_d :: "int \<Rightarrow> string" where
  "Sprint_d i = (if i < 0 then CHR ''-'' # digits (nat (- i)) else digits (nat i))"

definition hasRelation :: bsonD where
  "hasRelation = [(''relationcount'', BGt 0)]"

text \<open>The operation that every branch of the two endpoint builders ends with.\<close>

definition decrementOp :: "env \<Rightarrow> string \<Rightarrow> Endpoint \<Rightarrow> assertion \<Rightarrow> Op" where
  "decrementOp E c ep asserts =
     \<lparr>opC = c, opId = docID E (ApplicationName ep), opAssert = asserts, opInsert = None,
      opUpdate = UpdateInc [(''relationcount'', - 1)], opRemove = False\<rparr>"

definition hasLastRef_local :: bsonD where
  "hasLastRef_local = [(''life'', BLife Dying), (''unitcount'', BInt 0), (''relationcount'', BInt 1)]"

definition hasLastRef_remote :: bsonD where
  "hasLastRef_remote = [(''life'', BLife Dying), (''relationcount'', BInt 1)]"

definition departingUnitServiceMatchesEndpoint :: "env \<Rightarrow> string \<Rightarrow> Endpoint \<Rightarrow> bool" where
  "departingUnitServiceMatchesEndpoint E departingUnitName ep =
     (case UnitApplication E departingUnitName of
        Inl e \<Rightarrow> False
      | Inr s \<Rightarrow> s = ApplicationName ep)"

definition removeLocalEndpointOps ::
  "env \<Rightarrow> State \<Rightarrow> Endpoint \<Rightarrow> string \<Rightarrow> error + Op list" where
  "removeLocalEndpointOps E st ep departingUnitName =
     (if departingUnitName = ''''
      then Inr [decrementOp E applicationsC ep (AssertD (hasRelation @ isAliveDoc))]
      else if departingUnitServiceMatchesEndpoint E departingUnitName ep
      then Inr [decrementOp E applicationsC ep
                  (AssertD (hasRelation @ [(''unitcount'', BGt 0)]))]
      else
        (case applicationsFindOne E st ((''_id'', BStr (ApplicationName ep)) # hasLastRef_local) of
           Inr doc \<Rightarrow> applicationRemoveOps E st doc hasLastRef_local
         | Inl e \<Rightarrow>
             (if e \<noteq> ErrNotFound then Inl e
              else Inr [decrementOp E applicationsC ep
                          (AssertOr [[(''life'', BLife Alive)],
                                     [(''unitcount'', BGt 0)],
                                     [(''relationcount'', BGt 1)]])])))"

definition removeRemoteEndpointOps ::
  "env \<Rightarrow> State \<Rightarrow> Endpoint \<Rightarrow> bool \<Rightarrow> error + Op list" where
  "removeRemoteEndpointOps E st ep unitDying =
     (if \<not> unitDying
      then Inr [decrementOp E remoteApplicationsC ep (AssertD (hasRelation @ isAliveDoc))]
      else
        (case remoteApplicationsFindOne E st
                ((''_id'', BStr (ApplicationName ep)) # hasLastRef_remote) of
           Inr doc \<Rightarrow> Inr (remoteApplicationRemoveOps E st doc hasLastRef_remote)
         | Inl e \<Rightarrow>
             (if e \<noteq> ErrNotFound then Inl e
              else Inr [decrementOp E remoteApplicationsC ep
                          (AssertOr [[(''life'', BLife Alive)],
                                     [(''relationcount'', BGt 1)]])])))"

text \<open>The loop of \<open>removeOps\<close> over the endpoints; \<open>ops\<close> is the slice built so far.\<close>

fun removeEndpointsOps ::
  "env \<Rightarrow> State \<Rightarrow> string \<Rightarrow> string \<Rightarrow> Endpoint list \<Rightarrow> Op list \<Rightarrow> error + Op list" where
  "removeEndpointsOps E st ignoreService departingUnitName [] ops = Inr ops"
| "removeEndpointsOps E st ignoreService departingUnitName (ep # eps) ops =
     (if ApplicationName ep = ignoreService
      then removeEndpointsOps E st ignoreService departingUnitName eps ops
      else
        (case applicationByName E st (ApplicationName ep) of
           Inl e \<Rightarrow> Inl (Trace e)
         | Inr isRemote \<Rightarrow>
             (if isRemote
              then
                (case removeRemoteEndpointOps E st ep (departingUnitName \<noteq> '''') of
                   Inl e \<Rightarrow> Inl (Trace e)
                 | Inr epOps \<Rightarrow>
                     removeEndpointsOps E st ignoreService departingUnitName eps (ops @ epOps))
              else
                (case removeLocalEndpointOps E st ep departingUnitName of
                   Inl e \<Rightarrow> Inl (Trace e)
                 | Inr epOps \<Rightarrow>
                     removeEndpointsOps E st ignoreService departingUnitName eps (ops @ epOps)))))"

definition relOp :: "relationDoc \<Rightarrow> string \<Rightarrow> Op" where
  "relOp r departingUnitName =
     \<lparr>opC = relationsC, opId = DocID r,
      opAssert =
        (if departingUnitName \<noteq> ''''
         then AssertD [(''life'', BLife Dying), (''unitcount'', BInt 1)]
         else AssertD [(''life'', BLife Alive), (''unitcount'', BInt 0)]),
      opInsert = None, opUpdate = NoUpdate, opRemove = True\<rparr>"

definition cleanupOp :: "env \<Rightarrow> relationDoc \<Rightarrow> Op" where
  "cleanupOp E r = newCleanupOp E cleanupRelationSettings (''r#'' @ Sprint_d (Id_rel r) @ ''#'')"

definition removeOps :: "env \<Rightarrow> State \<Rightarrow> relationDoc \<Rightarrow> string \<Rightarrow> string \<Rightarrow> error + Op list" where
  "removeOps E st r ignoreService departingUnitName =
     (case removeEndpointsOps E st ignoreService departingUnitName (Endpoints r)
             [relOp r departingUnitName] of
        Inl e \<Rightarrow> Inl e
      | Inr ops \<Rightarrow> Inr (ops @ [cleanupOp E r]))"

text \<open>The one operation of \<open>destroyOps\<close> for a relation that still has units in scope.\<close>

definition setDyingOp :: "relationDoc \<Rightarrow> Op" where
  "setDyingOp r =
     \<lparr>opC = relationsC, opId = DocID r,
      opAssert = AssertD [(''life'', BLife Alive), (''unitcount'', BGt 0)],
      opInsert = None, opUpdate = UpdateSet [(''life'', BLife Dying)], opRemove = False\<rparr>"

text \<open>\<open>destroyOps\<close> returns the operations and \<open>isRemove\<close>, or the error.\<close>

definition destroyOps :: "env \<Rightarrow> State \<Rightarrow> relationDoc \<Rightarrow> string \<Rightarrow> error + (Op list \<times> bool)" where
  "destroyOps E st r ignoreService =
     (if Life r \<noteq> Alive then Inl errAlreadyDying
      else if UnitCount r = 0
      then
        (case removeOps E st r ignoreService '''' of
           Inl e \<Rightarrow> Inl e
         | Inr ops \<Rightarrow> Inr (ops, True))
      else Inr ([setDyingOp r], False))"

section \<open>Destroy\<close>

text \<open>
  The closure \<open>buildTxn\<close> of \<open>Destroy\<close>. It reads and writes the copy \<open>rel\<close> of the
  snapshot, so the model takes \<open>rel\<close> and returns it with the result.
  \<open>buildOps\<close> is its second half, the call of \<open>destroyOps\<close> and the translation of
  \<open>errAlreadyDying\<close> into \<open>ErrNoOperations\<close>.
\<close>

definition buildOps :: "env \<Rightarrow> State \<Rightarrow> relationDoc \<Rightarrow> (error + Op list) \<times> relationDoc" where
  "buildOps E st rel =
     (case destroyOps E st rel '''' of
        Inl e \<Rightarrow> (if e = errAlreadyDying then (Inl ErrNoOperations, rel) else (Inl e, rel))
      | Inr (ops, isRemove) \<Rightarrow> (Inr ops, rel))"

definition buildTxn :: "env \<Rightarrow> State \<Rightarrow> relationDoc \<Rightarrow> nat \<Rightarrow> (error + Op list) \<times> relationDoc" where
  "buildTxn E st rel attempt =
     (if attempt > 0
      then
        (case Refresh st rel of
           (Some e, rel') \<Rightarrow> (if IsNotFound e then (Inr [], rel') else (Inl e, rel'))
         | (None, rel') \<Rightarrow> buildOps E st rel')
      else buildOps E st rel)"

text \<open>
  Modelled from the spec: \<open>State.run\<close>, the optimistic transaction executor of section 4.2,
  is defined in another file of the package. The attempt counter starts at 0; a builder that signals
  that no operations are needed stops the loop with success, any other error of the builder
  is returned; the operations are submitted; a commit stops with success, a failed
  assertion (\<open>ErrAborted\<close>) starts the next attempt, any other error is returned; when the
  budget is used up the result is \<open>ErrExcessiveContention\<close>. The budget is the 5 attempts
  that the comment in \<open>Destroy\<close> speaks of.
\<close>

definition retryBudget :: nat where
  "retryBudget = 5"

fun runFrom ::
  "env \<Rightarrow> (State \<Rightarrow> 'r \<Rightarrow> nat \<Rightarrow> (error + Op list) \<times> 'r) \<Rightarrow> nat \<Rightarrow> nat \<Rightarrow> State \<Rightarrow> 'r
     \<Rightarrow> error option \<times> State \<times> 'r" where
  "runFrom E build 0 attempt st r = (Some ErrExcessiveContention, st, r)"
| "runFrom E build (Suc budget) attempt st r =
     (case build st r attempt of
        (Inl e, r') \<Rightarrow> (if e = ErrNoOperations then (None, st, r') else (Some e, st, r'))
      | (Inr ops, r') \<Rightarrow>
          (case runTransaction E st ops of
             (None, st') \<Rightarrow> (None, st', r')
           | (Some e, st') \<Rightarrow>
               (if e = ErrAborted then runFrom E build budget (Suc attempt) st' r'
                else (Some e, st', r'))))"

definition run ::
  "env \<Rightarrow> (State \<Rightarrow> 'r \<Rightarrow> nat \<Rightarrow> (error + Op list) \<times> 'r) \<Rightarrow> State \<Rightarrow> 'r
     \<Rightarrow> error option \<times> State \<times> 'r" where
  "run E build st r = runFrom E build retryBudget 0 st r"

text \<open>
  \<open>Destroy\<close> returns the error, the store after the call and the caller's snapshot
  \<open>r.doc\<close> after the call. The deferred annotation wraps every error.
\<close>

definition Destroy :: "env \<Rightarrow> State \<Rightarrow> relationDoc \<Rightarrow> error option \<times> State \<times> relationDoc" where
  "Destroy E st r =
     (if length (Endpoints r) = 1 \<and> Role (hd (Endpoints r)) = RolePeer
      then (Some (Annotatef (Errorf ''is a peer relation'' []) ''cannot destroy relation %q'' [Key r]),
            st, r)
      else
        (case run E (buildTxn E) st r of
           (None, st', rel) \<Rightarrow> (None, st', r\<lparr>Life := Dying\<rparr>)
         | (Some e, st', rel) \<Rightarrow>
             (Some (Annotatef e ''cannot destroy relation %q'' [Key r]), st', r)))"

section \<open>The cleanup of relation settings\<close>

record relationSettingsCleanupChange =
  Prefix :: string

definition removeSettingsOp :: "string \<Rightarrow> Op" where
  "removeSettingsOp i =
     \<lparr>opC = settingsC, opId = i, opAssert = NoAssert, opInsert = None, opUpdate = NoUpdate,
      opRemove = True\<rparr>"

definition Prepare :: "env \<Rightarrow> relationSettingsCleanupChange \<Rightarrow> Database \<Rightarrow> error + Op list" where
  "Prepare E change db =
     (case settingsFindIds E db [(''_id'', BRegex (''^'' @ Prefix change))] of
        Inl e \<Rightarrow> Inl (Trace e)
      | Inr docs \<Rightarrow>
          (if length docs = 0 then Inl ErrChangeComplete
           else Inr (map removeSettingsOp docs)))"

section \<open>An in-memory store, for running the operations on examples\<close>

text \<open>
  The fields of a relation document that assertions mention, and the document an operation
  is aimed at, if the store holds it.
\<close>

definition relationFields :: "relationDoc \<Rightarrow> bsonD" where
  "relationFields d =
     [(''_id'', BStr (DocID d)), (''key'', BStr (Key d)), (''life'', BLife (Life d)),
      (''unitcount'', BInt (UnitCount d))]"

definition targetFields :: "State \<Rightarrow> Op \<Rightarrow> bsonD option" where
  "targetFields st op =
     (if opC op = relationsC
      then map_option relationFields (find (\<lambda>d. DocID d = opId op) (relations st))
      else if opC op = applicationsC
      then map_option applicationFields (find (\<lambda>d. AppDocID d = opId op) (applications st))
      else if opC op = remoteApplicationsC
      then map_option remoteApplicationFields
             (find (\<lambda>d. RemoteDocID d = opId op) (remoteApplications st))
      else if opC op = settingsC
      then map_option (\<lambda>i. [(''_id'', BStr i)]) (find (\<lambda>i. i = opId op) (settings st))
      else None)"

definition assertOk :: "(string \<Rightarrow> string \<Rightarrow> bool) \<Rightarrow> State \<Rightarrow> Op \<Rightarrow> bool" where
  "assertOk rx st op =
     (case targetFields st op of
        None \<Rightarrow> opAssert op = NoAssert \<or> opAssert op = DocMissing
      | Some flds \<Rightarrow> assertHolds rx (opAssert op) flds)"

fun setLife :: "update \<Rightarrow> Life \<Rightarrow> Life" where
  "setLife (UpdateSet [(k, BLife l)]) old = (if k = ''life'' then l else old)"
| "setLife u old = old"

fun incCount :: "update \<Rightarrow> int \<Rightarrow> int" where
  "incCount (UpdateInc [(k, n)]) old = (if k = ''relationcount'' then old + n else old)"
| "incCount u old = old"

definition applyOp :: "State \<Rightarrow> Op \<Rightarrow> State" where
  "applyOp st op =
     (if opC op = relationsC
      then st\<lparr>relations :=
             (if opRemove op then filter (\<lambda>d. DocID d \<noteq> opId op) (relations st)
              else map (\<lambda>d. if DocID d = opId op then d\<lparr>Life := setLife (opUpdate op) (Life d)\<rparr>
                             else d) (relations st))\<rparr>
      else if opC op = applicationsC
      then st\<lparr>applications :=
             (if opRemove op then filter (\<lambda>d. AppDocID d \<noteq> opId op) (applications st)
              else map (\<lambda>d. if AppDocID d = opId op
                             then d\<lparr>AppRelationCount :=
                                      incCount (opUpdate op) (AppRelationCount d)\<rparr>
                             else d) (applications st))\<rparr>
      else if opC op = remoteApplicationsC
      then st\<lparr>remoteApplications :=
             (if opRemove op then filter (\<lambda>d. RemoteDocID d \<noteq> opId op) (remoteApplications st)
              else map (\<lambda>d. if RemoteDocID d = opId op
                             then d\<lparr>RemoteRelationCount :=
                                      incCount (opUpdate op) (RemoteRelationCount d)\<rparr>
                             else d) (remoteApplications st))\<rparr>
      else if opC op = settingsC \<and> opRemove op
      then st\<lparr>settings := filter (\<lambda>i. i \<noteq> opId op) (settings st)\<rparr>
      else st)"

text \<open>
  One transaction: when every assertion holds, all operations are applied; otherwise
  nothing is and the transaction is aborted.
\<close>

definition memRunTransaction ::
  "(string \<Rightarrow> string \<Rightarrow> bool) \<Rightarrow> State \<Rightarrow> Op list \<Rightarrow> error option \<times> State" where
  "memRunTransaction rx st ops =
     (if list_all (assertOk rx st) ops then (None, foldl applyOp st ops)
      else (Some ErrAborted, st))"

text \<open>A pattern \<open>^p\<close> with a literal \<open>p\<close> matches the strings that start with \<open>p\<close>.\<close>

fun prefixRegex :: "string \<Rightarrow> string \<Rightarrow> bool" where
  "prefixRegex [] s = True"
| "prefixRegex (c # p) s = (c = CHR ''^'' \<and> take (length p) s = p)"

definition memApplicationByName :: "State \<Rightarrow> string \<Rightarrow> error + bool" where
  "memApplicationByName st n =
     (if list_ex (\<lambda>d. RemoteName d = n) (remoteApplications st) then Inr True
      else if list_ex (\<lambda>d. AppName d = n) (applications st) then Inr False
      else Inl (NotFoundf ''application %q'' [n]))"

definition removeDocOp :: "string \<Rightarrow> string \<Rightarrow> bsonD \<Rightarrow> Op" where
  "removeDocOp c i asserts =
     \<lparr>opC = c, opId = i, opAssert = AssertD asserts, opInsert = None, opUpdate = NoUpdate,
      opRemove = True\<rparr>"

definition memEnv :: env where
  "memEnv =
     \<lparr>docID = (\<lambda>s. ''m:'' @ s),
      regexMatch = prefixRegex,
      UnitApplication = (\<lambda>u. Inr (takeWhile (\<lambda>c. c \<noteq> CHR ''/'') u)),
      applicationByName = memApplicationByName,
      applicationRemoveOps = (\<lambda>st d asserts. Inr [removeDocOp applicationsC (AppDocID d) asserts]),
      remoteApplicationRemoveOps =
        (\<lambda>st d asserts. [removeDocOp remoteApplicationsC (RemoteDocID d) asserts]),
      newCleanupOp =
        (\<lambda>kind prefix. \<lparr>opC = ''cleanups'', opId = ''c1'', opAssert = NoAssert,
                          opInsert = Some [(''kind'', BStr kind), (''prefix'', BStr prefix)],
                          opUpdate = NoUpdate, opRemove = False\<rparr>),
      runTransaction = memRunTransaction prefixRegex\<rparr>"

text \<open>
  Example documents: the relation \<open>wordpress:db mysql:server\<close> with id 7, a peer relation
  of one endpoint, the two applications, and stores that hold them.
\<close>

definition epWordpress :: Endpoint where
  "epWordpress = \<lparr>ApplicationName = ''wordpress'', Role = RoleRequirer\<rparr>"

definition epMysql :: Endpoint where
  "epMysql = \<lparr>ApplicationName = ''mysql'', Role = RoleProvider\<rparr>"

definition epRing :: Endpoint where
  "epRing = \<lparr>ApplicationName = ''riak'', Role = RolePeer\<rparr>"

definition rel7 :: "Life \<Rightarrow> int \<Rightarrow> relationDoc" where
  "rel7 l n =
     \<lparr>DocID = ''m:wordpress:db mysql:server'', Key = ''wordpress:db mysql:server'',
      ModelUUID = ''m'', Id_rel = 7, Endpoints = [epWordpress, epMysql], Life = l,
      UnitCount = n\<rparr>"

definition relPeer :: "Life \<Rightarrow> relationDoc" where
  "relPeer l =
     \<lparr>DocID = ''m:riak:ring'', Key = ''riak:ring'', ModelUUID = ''m'', Id_rel = 3,
      Endpoints = [epRing], Life = l, UnitCount = 0\<rparr>"

definition app :: "string \<Rightarrow> Life \<Rightarrow> int \<Rightarrow> int \<Rightarrow> applicationDoc" where
  "app n l u c =
     \<lparr>AppDocID = ''m:'' @ n, AppName = n, AppLife = l, AppUnitCount = u, AppRelationCount = c\<rparr>"

definition remoteApp :: "string \<Rightarrow> Life \<Rightarrow> int \<Rightarrow> remoteApplicationDoc" where
  "remoteApp n l c =
     \<lparr>RemoteDocID = ''m:'' @ n, RemoteName = n, RemoteLife = l, RemoteRelationCount = c\<rparr>"

definition store :: "relationDoc list \<Rightarrow> applicationDoc list \<Rightarrow> remoteApplicationDoc list
    \<Rightarrow> string list \<Rightarrow> State" where
  "store rs as ras ss =
     \<lparr>relations = rs, applications = as, remoteApplications = ras, settings = ss,
      failing = []\<rparr>"

definition twoApps :: "applicationDoc list" where
  "twoApps = [app ''wordpress'' Alive 1 1, app ''mysql'' Alive 1 1]"

section \<open>The operations of destroyOps and removeOps\<close>

lemma removeEndpointsOps_acc:
  "removeEndpointsOps E st ign dep eps ops =
     (case removeEndpointsOps E st ign dep eps [] of
        Inl e \<Rightarrow> Inl e
      | Inr epOps \<Rightarrow> Inr (ops @ epOps))"
proof (induction eps arbitrary: ops)
  case Nil
  show ?case by simp
next
  case (Cons ep eps)
  note IH = Cons.IH
  show ?case
  proof (cases "ApplicationName ep = ign")
    case True
    then show ?thesis using IH [of ops] by simp
  next
    case False
    show ?thesis
    proof (cases "applicationByName E st (ApplicationName ep)")
      case (Inl e)
      then show ?thesis using False by simp
    next
      case (Inr isRemote)
      show ?thesis
      proof (cases isRemote)
        case True
        show ?thesis
        proof (cases "removeRemoteEndpointOps E st ep (dep \<noteq> '''')")
          case (Inl e)
          then show ?thesis using False Inr True by simp
        next
          case (Inr epOps)
          have a: "removeEndpointsOps E st ign dep (ep # eps) ops
                     = removeEndpointsOps E st ign dep eps (ops @ epOps)"
            using False \<open>applicationByName E st (ApplicationName ep) = Inr isRemote\<close> True Inr
            by simp
          have b: "removeEndpointsOps E st ign dep (ep # eps) []
                     = removeEndpointsOps E st ign dep eps epOps"
            using False \<open>applicationByName E st (ApplicationName ep) = Inr isRemote\<close> True Inr
            by simp
          show ?thesis
            unfolding a b using IH [of "ops @ epOps"] IH [of epOps]
            by (simp split: sum.splits)
        qed
      next
        case notRemote: False
        show ?thesis
        proof (cases "removeLocalEndpointOps E st ep dep")
          case (Inl e)
          then show ?thesis using False Inr notRemote by simp
        next
          case epr: (Inr epOps)
          have a: "removeEndpointsOps E st ign dep (ep # eps) ops
                     = removeEndpointsOps E st ign dep eps (ops @ epOps)"
            using False Inr notRemote epr by simp
          have b: "removeEndpointsOps E st ign dep (ep # eps) []
                     = removeEndpointsOps E st ign dep eps epOps"
            using False Inr notRemote epr by simp
          show ?thesis
            unfolding a b using IH [of "ops @ epOps"] IH [of epOps]
            by (simp split: sum.splits)
        qed
      qed
    qed
  qed
qed

lemma removeOps_shape:
  assumes "removeOps E st r ign dep = Inr ops"
  shows "\<exists>epOps. removeEndpointsOps E st ign dep (Endpoints r) [] = Inr epOps
           \<and> ops = relOp r dep # epOps @ [cleanupOp E r]"
proof -
  obtain res where res: "removeEndpointsOps E st ign dep (Endpoints r) [relOp r dep] = Inr res"
    and ops: "ops = res @ [cleanupOp E r]"
    using assms by (auto simp: removeOps_def split: sum.splits)
  from res obtain epOps where ep: "removeEndpointsOps E st ign dep (Endpoints r) [] = Inr epOps"
    and r2: "res = [relOp r dep] @ epOps"
    using removeEndpointsOps_acc [of E st ign dep "Endpoints r" "[relOp r dep]"]
    by (auto split: sum.splits)
  show ?thesis using ep r2 ops by simp
qed

text \<open>
  C1. The operations of a removal are: first the operation that removes the relation's own
  document, then the operations for the endpoints, and last one operation that enqueues the
  cleanup of the relation's settings (kind \<open>relationSettings\<close>, prefix \<open>r#<id>#\<close>).
  When \<open>destroyOps\<close> builds them for a snapshot that is Alive with no unit in scope (no
  departing unit), the first operation asserts life = Alive and unitcount = 0 and
  \<open>isRemove\<close> is true; when \<open>removeOps\<close> builds them for a departing unit, the first
  operation asserts life = Dying and unitcount = 1.
\<close>

theorem removal_set_self_op_and_cleanup:
  "(Life r = Alive \<and> UnitCount r = 0 \<and> destroyOps E st r ignoreService = Inr (ops, isRemove)
      \<longrightarrow> isRemove \<and>
          (\<exists>epOps. removeEndpointsOps E st ignoreService '''' (Endpoints r) [] = Inr epOps \<and>
             ops =
               \<lparr>opC = relationsC, opId = DocID r,
                 opAssert = AssertD [(''life'', BLife Alive), (''unitcount'', BInt 0)],
                 opInsert = None, opUpdate = NoUpdate, opRemove = True\<rparr>
               # epOps
               @ [newCleanupOp E cleanupRelationSettings (''r#'' @ Sprint_d (Id_rel r) @ ''#'')]))
   \<and> (departingUnitName \<noteq> '''' \<and>
        removeOps E st r ignoreService departingUnitName = Inr ops'
      \<longrightarrow> (\<exists>epOps. removeEndpointsOps E st ignoreService departingUnitName (Endpoints r) []
                      = Inr epOps \<and>
             ops' =
               \<lparr>opC = relationsC, opId = DocID r,
                 opAssert = AssertD [(''life'', BLife Dying), (''unitcount'', BInt 1)],
                 opInsert = None, opUpdate = NoUpdate, opRemove = True\<rparr>
               # epOps
               @ [newCleanupOp E cleanupRelationSettings (''r#'' @ Sprint_d (Id_rel r) @ ''#'')]))"
proof (intro conjI impI)
  assume a: "Life r = Alive \<and> UnitCount r = 0 \<and> destroyOps E st r ignoreService = Inr (ops, isRemove)"
  then have rem: "removeOps E st r ignoreService '''' = Inr ops" and ir: "isRemove"
    by (auto simp: destroyOps_def split: sum.splits)
  show isRemove by (rule ir)
  from removeOps_shape [OF rem]
  show "\<exists>epOps. removeEndpointsOps E st ignoreService '''' (Endpoints r) [] = Inr epOps \<and>
             ops =
               \<lparr>opC = relationsC, opId = DocID r,
                 opAssert = AssertD [(''life'', BLife Alive), (''unitcount'', BInt 0)],
                 opInsert = None, opUpdate = NoUpdate, opRemove = True\<rparr>
               # epOps
               @ [newCleanupOp E cleanupRelationSettings (''r#'' @ Sprint_d (Id_rel r) @ ''#'')]"
    by (simp add: relOp_def cleanupOp_def)
next
  assume a: "departingUnitName \<noteq> '''' \<and>
        removeOps E st r ignoreService departingUnitName = Inr ops'"
  then have d: "departingUnitName \<noteq> ''''"
    and rem: "removeOps E st r ignoreService departingUnitName = Inr ops'" by simp_all
  from removeOps_shape [OF rem] d
  show "\<exists>epOps. removeEndpointsOps E st ignoreService departingUnitName (Endpoints r) []
                      = Inr epOps \<and>
             ops' =
               \<lparr>opC = relationsC, opId = DocID r,
                 opAssert = AssertD [(''life'', BLife Dying), (''unitcount'', BInt 1)],
                 opInsert = None, opUpdate = NoUpdate, opRemove = True\<rparr>
               # epOps
               @ [newCleanupOp E cleanupRelationSettings (''r#'' @ Sprint_d (Id_rel r) @ ''#'')]"
    by (simp add: relOp_def cleanupOp_def)
qed

text \<open>
  C2. For a snapshot that is Alive with units in scope, \<open>destroyOps\<close> returns exactly one
  operation, on the relation's own document: it asserts life = Alive and unitcount > 0 and
  sets life to Dying. Nothing else is written, no operation touches an application, and
  \<open>isRemove\<close> is false.
\<close>

theorem destroyOps_units_in_scope:
  "Life r = Alive \<Longrightarrow> 0 < UnitCount r \<Longrightarrow>
   destroyOps E st r ignoreService =
     Inr ([\<lparr>opC = relationsC, opId = DocID r,
             opAssert = AssertD [(''life'', BLife Alive), (''unitcount'', BGt 0)],
             opInsert = None, opUpdate = UpdateSet [(''life'', BLife Dying)],
             opRemove = False\<rparr>], False)"
  by (simp add: destroyOps_def setDyingOp_def)

text \<open>
  C10. When \<open>Destroy\<close> returns no error, the caller's snapshot is the one it had, with
  life set to Dying: whatever the transaction did to the document, and also when no
  transaction was run.
\<close>

theorem Destroy_success_sets_Dying:
  "Destroy E st r = (None, st', r') \<Longrightarrow> r' = r\<lparr>Life := Dying\<rparr> \<and> Life r' = Dying"
  by (auto simp: Destroy_def split: if_splits prod.splits option.splits)

text \<open>
  C6. For a relation whose endpoints are exactly one endpoint of role peer, \<open>Destroy\<close>
  returns the error \<open>is a peer relation\<close> (annotated), whatever the collaborators are:
  no transaction is built or submitted, no attempt is made, and the store and the snapshot
  are as they were.
\<close>

theorem Destroy_peer_relation:
  "length (Endpoints r) = 1 \<Longrightarrow> Role (hd (Endpoints r)) = RolePeer \<Longrightarrow>
   Destroy E st r =
     (Some (Annotatef (Errorf ''is a peer relation'' []) ''cannot destroy relation %q'' [Key r]),
      st, r)"
  by (simp add: Destroy_def)

section \<open>Destroy of a relation that is not alive, Refresh and the settings cleanup\<close>

lemma buildOps_not_alive:
  "Life rel \<noteq> Alive \<Longrightarrow> buildOps E st rel = (Inl ErrNoOperations, rel)"
  by (simp add: buildOps_def destroyOps_def)

lemma run_no_operations:
  "build st r 0 = (Inl ErrNoOperations, r') \<Longrightarrow> run E build st r = (None, st, r')"
  by (simp add: run_def retryBudget_def numeral_eq_Suc)

lemma Destroy_not_alive:
  assumes "Life r \<noteq> Alive"
    and "\<not> (length (Endpoints r) = 1 \<and> Role (hd (Endpoints r)) = RolePeer)"
  shows "Destroy E st r = (None, st, r\<lparr>Life := Dying\<rparr>)"
proof -
  have "buildTxn E st r 0 = (Inl ErrNoOperations, r)"
    using assms(1) by (simp add: buildTxn_def buildOps_not_alive)
  then have "run E (buildTxn E) st r = (None, st, r)"
    by (rule run_no_operations)
  then show ?thesis using assms(2) by (simp add: Destroy_def)
qed

text \<open>
  C3, amended. For a snapshot whose life is Dying or Dead, \<open>destroyOps\<close> returns no
  operations with \<open>errAlreadyDying\<close>. If the relation is not a peer relation of one
  endpoint, \<open>Destroy\<close> returns no error and leaves the store as it was, with the snapshot
  set to Dying, and a second \<open>Destroy\<close> on that snapshot returns no error either and
  leaves the same store and the same snapshot.
\<close>

theorem Destroy_already_dying_is_noop:
  assumes "Life r \<noteq> Alive"
    and "\<not> (length (Endpoints r) = 1 \<and> Role (hd (Endpoints r)) = RolePeer)"
  shows "destroyOps E st r ignoreService = Inl errAlreadyDying
       \<and> Destroy E st r = (None, st, r\<lparr>Life := Dying\<rparr>)
       \<and> Destroy E st (r\<lparr>Life := Dying\<rparr>) = (None, st, r\<lparr>Life := Dying\<rparr>)"
proof (intro conjI)
  show "destroyOps E st r ignoreService = Inl errAlreadyDying"
    using assms(1) by (simp add: destroyOps_def)
  show "Destroy E st r = (None, st, r\<lparr>Life := Dying\<rparr>)"
    using assms by (rule Destroy_not_alive)
  have "Destroy E st (r\<lparr>Life := Dying\<rparr>) = (None, st, r\<lparr>Life := Dying\<rparr>\<lparr>Life := Dying\<rparr>)"
    using assms(2) by (intro Destroy_not_alive) simp_all
  then show "Destroy E st (r\<lparr>Life := Dying\<rparr>) = (None, st, r\<lparr>Life := Dying\<rparr>)"
    by simp
qed

text \<open>
  C3 as stated fails on a peer relation of one endpoint that is Dying: \<open>destroyOps\<close>
  signals \<open>errAlreadyDying\<close>, yet \<open>Destroy\<close> returns the error \<open>is a peer relation\<close>,
  the first time and, store and snapshot being unchanged, every time after.
\<close>

theorem Destroy_dying_peer_counterexample:
  "Life (relPeer Dying) = Dying
   \<and> destroyOps memEnv (store [relPeer Dying] [app ''riak'' Alive 1 1] [] []) (relPeer Dying) ''''
       = Inl errAlreadyDying
   \<and> Destroy memEnv (store [relPeer Dying] [app ''riak'' Alive 1 1] [] []) (relPeer Dying)
       = (Some (Annotatef (Errorf ''is a peer relation'' []) ''cannot destroy relation %q''
                 [''riak:ring'']),
          store [relPeer Dying] [app ''riak'' Alive 1 1] [] [], relPeer Dying)"
  by code_simp

text \<open>
  C8. When the query on the relations does not fail, \<open>Refresh\<close> returns a not-found
  error and leaves the snapshot as it was in two cases: no document has the snapshot's
  document id, or the document that has it carries another \<open>Id\<close> (the relation was
  destroyed and created again). Only a document with the same \<open>Id\<close> replaces the snapshot.
\<close>

theorem Refresh_not_found:
  assumes "map_of (failing st) relationsC = None"
  shows "(find (\<lambda>d. DocID d = DocID r) (relations st) = None
            \<longrightarrow> Refresh st r = (Some (NotFoundf ''relation %v'' [Key r]), r))
       \<and> (find (\<lambda>d. DocID d = DocID r) (relations st) = Some doc \<and> Id_rel doc \<noteq> Id_rel r
            \<longrightarrow> Refresh st r = (Some (NotFoundf ''relation %v'' [Key r]), r))
       \<and> (find (\<lambda>d. DocID d = DocID r) (relations st) = Some doc \<and> Id_rel doc = Id_rel r
            \<longrightarrow> Refresh st r = (None, doc))
       \<and> IsNotFound (NotFoundf ''relation %v'' [Key r])"
  using assms by (simp add: Refresh_def relationsFindId_def)

lemma settingsFindIds_regex:
  "map_of (failing db) settingsC = None \<Longrightarrow>
   settingsFindIds E db [(''_id'', BRegex p)] = Inr (filter (regexMatch E p) (settings db))"
  by (simp add: settingsFindIds_def matchesD_def)

lemma Prepare_eq:
  "map_of (failing db) settingsC = None \<Longrightarrow>
   Prepare E change db
     = (if filter (regexMatch E (CHR ''^'' # Prefix change)) (settings db) = []
        then Inl ErrChangeComplete
        else Inr (map removeSettingsOp
                    (filter (regexMatch E (CHR ''^'' # Prefix change)) (settings db))))"
  by (simp add: Prepare_def settingsFindIds_regex)

text \<open>
  C9. When the query on the settings does not fail, \<open>Prepare\<close> returns
  \<open>ErrChangeComplete\<close> exactly when no settings document has an id that matches the
  pattern \<open>^prefix\<close>; otherwise it returns one remove operation for each matching
  document, in order, and nothing else. Once the matching documents are deleted,
  \<open>Prepare\<close> returns \<open>ErrChangeComplete\<close>.
\<close>

theorem Prepare_settings_cleanup:
  assumes "map_of (failing db) settingsC = None"
  shows "(Prepare E change db = Inl ErrChangeComplete
            \<longleftrightarrow> (\<forall>i \<in> set (settings db). \<not> regexMatch E (''^'' @ Prefix change) i))
       \<and> (Prepare E change db \<noteq> Inl ErrChangeComplete
            \<longrightarrow> Prepare E change db
                 = Inr (map (\<lambda>i. \<lparr>opC = settingsC, opId = i, opAssert = NoAssert,
                                   opInsert = None, opUpdate = NoUpdate, opRemove = True\<rparr>)
                          (filter (regexMatch E (''^'' @ Prefix change)) (settings db))))
       \<and> Prepare E change
            (db\<lparr>settings := filter (\<lambda>i. \<not> regexMatch E (''^'' @ Prefix change) i) (settings db)\<rparr>)
           = Inl ErrChangeComplete"
proof -
  let ?p = "CHR ''^'' # Prefix change"
  let ?db' = "db\<lparr>settings := filter (\<lambda>i. \<not> regexMatch E ?p i) (settings db)\<rparr>"
  have f: "map_of (failing ?db') settingsC = None"
    using assms by simp
  have g: "filter (regexMatch E ?p) (settings ?db') = []"
    by (simp add: filter_empty_conv)
  have Q: "Prepare E change ?db' = Inl ErrChangeComplete"
    unfolding Prepare_eq [OF f] using g by simp
  have rs: "removeSettingsOp = (\<lambda>i. \<lparr>opC = settingsC, opId = i, opAssert = NoAssert,
                                   opInsert = None, opUpdate = NoUpdate, opRemove = True\<rparr>)"
    by (rule ext) (simp add: removeSettingsOp_def)
  show ?thesis
    using Q unfolding Prepare_eq [OF assms] rs by (simp add: filter_empty_conv)
qed

section \<open>The operations for the endpoints\<close>

lemma removeLocalEndpointOps_no_departing:
  "removeLocalEndpointOps E st ep '''' =
     Inr [decrementOp E applicationsC ep
            (AssertD [(''relationcount'', BGt 0), (''life'', BLife Alive)])]"
  by (simp add: removeLocalEndpointOps_def hasRelation_def isAliveDoc_def)

lemma removeLocalEndpointOps_own_unit:
  "departingUnitName \<noteq> '''' \<Longrightarrow> departingUnitServiceMatchesEndpoint E departingUnitName ep \<Longrightarrow>
   removeLocalEndpointOps E st ep departingUnitName =
     Inr [decrementOp E applicationsC ep
            (AssertD [(''relationcount'', BGt 0), (''unitcount'', BGt 0)])]"
  by (simp add: removeLocalEndpointOps_def hasRelation_def)

lemma removeRemoteEndpointOps_no_departing:
  "removeRemoteEndpointOps E st ep False =
     Inr [decrementOp E remoteApplicationsC ep
            (AssertD [(''relationcount'', BGt 0), (''life'', BLife Alive)])]"
  by (simp add: removeRemoteEndpointOps_def hasRelation_def isAliveDoc_def)

lemma local_removable_query:
  "matchesD rx (mungeQuery E ((''_id'', BStr n) # hasLastRef_local)) (applicationFields d)
     \<longleftrightarrow> AppDocID d = docID E n \<and> AppLife d = Dying \<and> AppUnitCount d = 0
          \<and> AppRelationCount d = 1"
  by (auto simp: matchesD_def mungeQuery_def hasLastRef_local_def applicationFields_def)

lemma remote_removable_query:
  "matchesD rx (mungeQuery E ((''_id'', BStr n) # hasLastRef_remote)) (remoteApplicationFields d)
     \<longleftrightarrow> RemoteDocID d = docID E n \<and> RemoteLife d = Dying \<and> RemoteRelationCount d = 1"
  by (auto simp: matchesD_def mungeQuery_def hasLastRef_remote_def remoteApplicationFields_def)

lemma applicationsFindOne_removable:
  "map_of (failing st) applicationsC = None \<Longrightarrow>
   applicationsFindOne E st ((''_id'', BStr n) # hasLastRef_local) =
     (case find (\<lambda>d. AppDocID d = docID E n \<and> AppLife d = Dying \<and> AppUnitCount d = 0
                      \<and> AppRelationCount d = 1) (applications st) of
        None \<Rightarrow> Inl ErrNotFound
      | Some d \<Rightarrow> Inr d)"
  by (simp add: applicationsFindOne_def local_removable_query)

lemma remoteApplicationsFindOne_removable:
  "map_of (failing st) remoteApplicationsC = None \<Longrightarrow>
   remoteApplicationsFindOne E st ((''_id'', BStr n) # hasLastRef_remote) =
     (case find (\<lambda>d. RemoteDocID d = docID E n \<and> RemoteLife d = Dying
                      \<and> RemoteRelationCount d = 1) (remoteApplications st) of
        None \<Rightarrow> Inl ErrNotFound
      | Some d \<Rightarrow> Inr d)"
  by (simp add: remoteApplicationsFindOne_def remote_removable_query)

lemma removeLocalEndpointOps_other_unit:
  assumes "departingUnitName \<noteq> ''''"
    and "\<not> departingUnitServiceMatchesEndpoint E departingUnitName ep"
    and "map_of (failing st) applicationsC = None"
  shows "removeLocalEndpointOps E st ep departingUnitName =
     (case find (\<lambda>d. AppDocID d = docID E (ApplicationName ep) \<and> AppLife d = Dying
                      \<and> AppUnitCount d = 0 \<and> AppRelationCount d = 1) (applications st) of
        Some d \<Rightarrow> applicationRemoveOps E st d
                    [(''life'', BLife Dying), (''unitcount'', BInt 0), (''relationcount'', BInt 1)]
      | None \<Rightarrow> Inr [decrementOp E applicationsC ep
                        (AssertOr [[(''life'', BLife Alive)], [(''unitcount'', BGt 0)],
                                   [(''relationcount'', BGt 1)]])])"
  using assms
  by (simp add: removeLocalEndpointOps_def applicationsFindOne_removable hasLastRef_local_def [symmetric]
           split: option.splits)

lemma removeRemoteEndpointOps_unit_dying:
  assumes "map_of (failing st) remoteApplicationsC = None"
  shows "removeRemoteEndpointOps E st ep True =
     (case find (\<lambda>d. RemoteDocID d = docID E (ApplicationName ep) \<and> RemoteLife d = Dying
                      \<and> RemoteRelationCount d = 1) (remoteApplications st) of
        Some d \<Rightarrow> Inr (remoteApplicationRemoveOps E st d
                    [(''life'', BLife Dying), (''relationcount'', BInt 1)])
      | None \<Rightarrow> Inr [decrementOp E remoteApplicationsC ep
                        (AssertOr [[(''life'', BLife Alive)], [(''relationcount'', BGt 1)]])])"
  using assms
  by (simp add: removeRemoteEndpointOps_def remoteApplicationsFindOne_removable
           hasLastRef_remote_def [symmetric] split: option.splits)

lemma hasRelation_positive_local:
  "assertHolds rx (AssertD ((''relationcount'', BGt 0) # q)) (applicationFields d)
     \<Longrightarrow> 0 < AppRelationCount d"
  by (simp add: matchesD_def applicationFields_def)

lemma hasRelation_positive_remote:
  "assertHolds rx (AssertD ((''relationcount'', BGt 0) # q)) (remoteApplicationFields d)
     \<Longrightarrow> 0 < RemoteRelationCount d"
  by (simp add: matchesD_def remoteApplicationFields_def)

lemma or_assert_not_removable_local:
  "assertHolds rx (AssertOr [[(''life'', BLife Alive)], [(''unitcount'', BGt 0)],
                            [(''relationcount'', BGt 1)]]) (applicationFields d)
     \<Longrightarrow> \<not> (AppLife d = Dying \<and> AppUnitCount d = 0 \<and> AppRelationCount d = 1)"
  by (auto simp: matchesD_def applicationFields_def)

lemma own_unit_assert_not_removable:
  "assertHolds rx (AssertD [(''relationcount'', BGt 0), (''unitcount'', BGt 0)]) (applicationFields d)
     \<Longrightarrow> \<not> (AppLife d = Dying \<and> AppUnitCount d = 0 \<and> AppRelationCount d = 1)"
  by (auto simp: matchesD_def applicationFields_def)

lemma or_assert_not_removable_remote:
  "assertHolds rx (AssertOr [[(''life'', BLife Alive)], [(''relationcount'', BGt 1)]])
       (remoteApplicationFields d)
     \<Longrightarrow> \<not> (RemoteLife d = Dying \<and> RemoteRelationCount d = 1)"
  by (auto simp: matchesD_def remoteApplicationFields_def)

text \<open>
  C5. For a departing unit of another application, when the query does not fail:
  if the store holds the endpoint's application with life Dying, unitcount 0 and
  relationcount 1, \<open>removeLocalEndpointOps\<close> returns the removal operations of that
  application, built with these three conditions as assertion, in place of the decrement;
  otherwise it returns the decrement with the assertion life = Alive or unitcount > 0 or
  relationcount > 1. For a departing unit of the endpoint's own application it returns the
  decrement with the assertion relationcount > 0 and unitcount > 0.
  \<open>removeRemoteEndpointOps\<close> with a dying unit does the same with the conditions life
  Dying and relationcount 1, and the assertion life = Alive or relationcount > 1.
  No document that satisfies one of these assertions satisfies the conditions of removal.
\<close>

theorem endpoint_removal_for_departing_unit:
  "(departingUnitName \<noteq> '''' \<and> \<not> departingUnitServiceMatchesEndpoint E departingUnitName ep
      \<and> map_of (failing st) applicationsC = None
    \<longrightarrow> removeLocalEndpointOps E st ep departingUnitName =
         (case find (\<lambda>d. AppDocID d = docID E (ApplicationName ep) \<and> AppLife d = Dying
                          \<and> AppUnitCount d = 0 \<and> AppRelationCount d = 1) (applications st) of
            Some d \<Rightarrow>
              applicationRemoveOps E st d
                [(''life'', BLife Dying), (''unitcount'', BInt 0), (''relationcount'', BInt 1)]
          | None \<Rightarrow>
              Inr [\<lparr>opC = applicationsC, opId = docID E (ApplicationName ep),
                    opAssert = AssertOr [[(''life'', BLife Alive)], [(''unitcount'', BGt 0)],
                                         [(''relationcount'', BGt 1)]],
                    opInsert = None, opUpdate = UpdateInc [(''relationcount'', - 1)],
                    opRemove = False\<rparr>]))
   \<and> (departingUnitName \<noteq> '''' \<and> departingUnitServiceMatchesEndpoint E departingUnitName ep
    \<longrightarrow> removeLocalEndpointOps E st ep departingUnitName =
         Inr [\<lparr>opC = applicationsC, opId = docID E (ApplicationName ep),
               opAssert = AssertD [(''relationcount'', BGt 0), (''unitcount'', BGt 0)],
               opInsert = None, opUpdate = UpdateInc [(''relationcount'', - 1)],
               opRemove = False\<rparr>])
   \<and> (map_of (failing st) remoteApplicationsC = None
    \<longrightarrow> removeRemoteEndpointOps E st ep True =
         (case find (\<lambda>d. RemoteDocID d = docID E (ApplicationName ep) \<and> RemoteLife d = Dying
                          \<and> RemoteRelationCount d = 1) (remoteApplications st) of
            Some d \<Rightarrow>
              Inr (remoteApplicationRemoveOps E st d
                     [(''life'', BLife Dying), (''relationcount'', BInt 1)])
          | None \<Rightarrow>
              Inr [\<lparr>opC = remoteApplicationsC, opId = docID E (ApplicationName ep),
                    opAssert = AssertOr [[(''life'', BLife Alive)], [(''relationcount'', BGt 1)]],
                    opInsert = None, opUpdate = UpdateInc [(''relationcount'', - 1)],
                    opRemove = False\<rparr>]))
   \<and> (\<forall>rx d. assertHolds rx (AssertOr [[(''life'', BLife Alive)], [(''unitcount'', BGt 0)],
                                        [(''relationcount'', BGt 1)]]) (applicationFields d)
          \<longrightarrow> \<not> (AppLife d = Dying \<and> AppUnitCount d = 0 \<and> AppRelationCount d = 1))
   \<and> (\<forall>rx d. assertHolds rx (AssertD [(''relationcount'', BGt 0), (''unitcount'', BGt 0)])
                 (applicationFields d)
          \<longrightarrow> \<not> (AppLife d = Dying \<and> AppUnitCount d = 0 \<and> AppRelationCount d = 1))
   \<and> (\<forall>rx d. assertHolds rx (AssertOr [[(''life'', BLife Alive)], [(''relationcount'', BGt 1)]])
                 (remoteApplicationFields d)
          \<longrightarrow> \<not> (RemoteLife d = Dying \<and> RemoteRelationCount d = 1))"
proof (intro conjI impI allI)
  assume "departingUnitName \<noteq> '''' \<and> \<not> departingUnitServiceMatchesEndpoint E departingUnitName ep
      \<and> map_of (failing st) applicationsC = None"
  then have a: "departingUnitName \<noteq> ''''"
    and b: "\<not> departingUnitServiceMatchesEndpoint E departingUnitName ep"
    and c: "map_of (failing st) applicationsC = None" by simp_all
  show "removeLocalEndpointOps E st ep departingUnitName =
         (case find (\<lambda>d. AppDocID d = docID E (ApplicationName ep) \<and> AppLife d = Dying
                          \<and> AppUnitCount d = 0 \<and> AppRelationCount d = 1) (applications st) of
            Some d \<Rightarrow>
              applicationRemoveOps E st d
                [(''life'', BLife Dying), (''unitcount'', BInt 0), (''relationcount'', BInt 1)]
          | None \<Rightarrow>
              Inr [\<lparr>opC = applicationsC, opId = docID E (ApplicationName ep),
                    opAssert = AssertOr [[(''life'', BLife Alive)], [(''unitcount'', BGt 0)],
                                         [(''relationcount'', BGt 1)]],
                    opInsert = None, opUpdate = UpdateInc [(''relationcount'', - 1)],
                    opRemove = False\<rparr>])"
    unfolding removeLocalEndpointOps_other_unit [OF a b c]
    by (simp add: decrementOp_def split: option.splits)
next
  assume "departingUnitName \<noteq> '''' \<and> departingUnitServiceMatchesEndpoint E departingUnitName ep"
  then have a: "departingUnitName \<noteq> ''''"
    and b: "departingUnitServiceMatchesEndpoint E departingUnitName ep" by simp_all
  show "removeLocalEndpointOps E st ep departingUnitName =
         Inr [\<lparr>opC = applicationsC, opId = docID E (ApplicationName ep),
               opAssert = AssertD [(''relationcount'', BGt 0), (''unitcount'', BGt 0)],
               opInsert = None, opUpdate = UpdateInc [(''relationcount'', - 1)],
               opRemove = False\<rparr>]"
    unfolding removeLocalEndpointOps_own_unit [OF a b] by (simp add: decrementOp_def)
next
  assume c: "map_of (failing st) remoteApplicationsC = None"
  show "removeRemoteEndpointOps E st ep True =
         (case find (\<lambda>d. RemoteDocID d = docID E (ApplicationName ep) \<and> RemoteLife d = Dying
                          \<and> RemoteRelationCount d = 1) (remoteApplications st) of
            Some d \<Rightarrow>
              Inr (remoteApplicationRemoveOps E st d
                     [(''life'', BLife Dying), (''relationcount'', BInt 1)])
          | None \<Rightarrow>
              Inr [\<lparr>opC = remoteApplicationsC, opId = docID E (ApplicationName ep),
                    opAssert = AssertOr [[(''life'', BLife Alive)], [(''relationcount'', BGt 1)]],
                    opInsert = None, opUpdate = UpdateInc [(''relationcount'', - 1)],
                    opRemove = False\<rparr>])"
    unfolding removeRemoteEndpointOps_unit_dying [OF c]
    by (simp add: decrementOp_def split: option.splits)
next
  fix rx d
  assume "assertHolds rx (AssertOr [[(''life'', BLife Alive)], [(''unitcount'', BGt 0)],
                                        [(''relationcount'', BGt 1)]]) (applicationFields d)"
  then show "\<not> (AppLife d = Dying \<and> AppUnitCount d = 0 \<and> AppRelationCount d = 1)"
    by (rule or_assert_not_removable_local)
next
  fix rx d
  assume "assertHolds rx (AssertD [(''relationcount'', BGt 0), (''unitcount'', BGt 0)])
                 (applicationFields d)"
  then show "\<not> (AppLife d = Dying \<and> AppUnitCount d = 0 \<and> AppRelationCount d = 1)"
    by (rule own_unit_assert_not_removable)
next
  fix rx d
  assume "assertHolds rx (AssertOr [[(''life'', BLife Alive)], [(''relationcount'', BGt 1)]])
                 (remoteApplicationFields d)"
  then show "\<not> (RemoteLife d = Dying \<and> RemoteRelationCount d = 1)"
    by (rule or_assert_not_removable_remote)
qed

text \<open>
  C4, amended. The decrement that \<open>removeLocalEndpointOps\<close> emits with no departing unit,
  or for a departing unit of the endpoint's own application, and the decrement that
  \<open>removeRemoteEndpointOps\<close> emits when no unit is dying, carry an assertion that starts
  with relationcount > 0; a document that satisfies such an assertion has a positive
  relationcount. In the remaining case, a departing unit of another application and no
  removable application found, the decrement carries the assertion life = Alive or
  unitcount > 0 or relationcount > 1 (remote: life = Alive or relationcount > 1).
\<close>

theorem decrement_assertions:
  "removeLocalEndpointOps E st ep '''' =
     Inr [\<lparr>opC = applicationsC, opId = docID E (ApplicationName ep),
           opAssert = AssertD [(''relationcount'', BGt 0), (''life'', BLife Alive)],
           opInsert = None, opUpdate = UpdateInc [(''relationcount'', - 1)],
           opRemove = False\<rparr>]
   \<and> (departingUnitName \<noteq> '''' \<and> departingUnitServiceMatchesEndpoint E departingUnitName ep
    \<longrightarrow> removeLocalEndpointOps E st ep departingUnitName =
         Inr [\<lparr>opC = applicationsC, opId = docID E (ApplicationName ep),
               opAssert = AssertD [(''relationcount'', BGt 0), (''unitcount'', BGt 0)],
               opInsert = None, opUpdate = UpdateInc [(''relationcount'', - 1)],
               opRemove = False\<rparr>])
   \<and> removeRemoteEndpointOps E st ep False =
       Inr [\<lparr>opC = remoteApplicationsC, opId = docID E (ApplicationName ep),
             opAssert = AssertD [(''relationcount'', BGt 0), (''life'', BLife Alive)],
             opInsert = None, opUpdate = UpdateInc [(''relationcount'', - 1)],
             opRemove = False\<rparr>]
   \<and> (\<forall>rx q d. assertHolds rx (AssertD ((''relationcount'', BGt 0) # q)) (applicationFields d)
          \<longrightarrow> 0 < AppRelationCount d)
   \<and> (\<forall>rx q d. assertHolds rx (AssertD ((''relationcount'', BGt 0) # q))
                   (remoteApplicationFields d)
          \<longrightarrow> 0 < RemoteRelationCount d)
   \<and> (departingUnitName \<noteq> '''' \<and> \<not> departingUnitServiceMatchesEndpoint E departingUnitName ep
      \<and> applicationsFindOne E st
           [(''_id'', BStr (ApplicationName ep)), (''life'', BLife Dying),
            (''unitcount'', BInt 0), (''relationcount'', BInt 1)] = Inl ErrNotFound
    \<longrightarrow> removeLocalEndpointOps E st ep departingUnitName =
         Inr [\<lparr>opC = applicationsC, opId = docID E (ApplicationName ep),
               opAssert = AssertOr [[(''life'', BLife Alive)], [(''unitcount'', BGt 0)],
                                    [(''relationcount'', BGt 1)]],
               opInsert = None, opUpdate = UpdateInc [(''relationcount'', - 1)],
               opRemove = False\<rparr>])
   \<and> (remoteApplicationsFindOne E st
           [(''_id'', BStr (ApplicationName ep)), (''life'', BLife Dying),
            (''relationcount'', BInt 1)] = Inl ErrNotFound
    \<longrightarrow> removeRemoteEndpointOps E st ep True =
         Inr [\<lparr>opC = remoteApplicationsC, opId = docID E (ApplicationName ep),
               opAssert = AssertOr [[(''life'', BLife Alive)], [(''relationcount'', BGt 1)]],
               opInsert = None, opUpdate = UpdateInc [(''relationcount'', - 1)],
               opRemove = False\<rparr>])"
proof (intro conjI impI allI)
  show "removeLocalEndpointOps E st ep '''' =
     Inr [\<lparr>opC = applicationsC, opId = docID E (ApplicationName ep),
           opAssert = AssertD [(''relationcount'', BGt 0), (''life'', BLife Alive)],
           opInsert = None, opUpdate = UpdateInc [(''relationcount'', - 1)],
           opRemove = False\<rparr>]"
    unfolding removeLocalEndpointOps_no_departing by (simp add: decrementOp_def)
next
  assume "departingUnitName \<noteq> '''' \<and> departingUnitServiceMatchesEndpoint E departingUnitName ep"
  then have a: "departingUnitName \<noteq> ''''"
    and b: "departingUnitServiceMatchesEndpoint E departingUnitName ep" by simp_all
  show "removeLocalEndpointOps E st ep departingUnitName =
         Inr [\<lparr>opC = applicationsC, opId = docID E (ApplicationName ep),
               opAssert = AssertD [(''relationcount'', BGt 0), (''unitcount'', BGt 0)],
               opInsert = None, opUpdate = UpdateInc [(''relationcount'', - 1)],
               opRemove = False\<rparr>]"
    unfolding removeLocalEndpointOps_own_unit [OF a b] by (simp add: decrementOp_def)
next
  show "removeRemoteEndpointOps E st ep False =
       Inr [\<lparr>opC = remoteApplicationsC, opId = docID E (ApplicationName ep),
             opAssert = AssertD [(''relationcount'', BGt 0), (''life'', BLife Alive)],
             opInsert = None, opUpdate = UpdateInc [(''relationcount'', - 1)],
             opRemove = False\<rparr>]"
    unfolding removeRemoteEndpointOps_no_departing by (simp add: decrementOp_def)
next
  fix rx q d
  assume "assertHolds rx (AssertD ((''relationcount'', BGt 0) # q)) (applicationFields d)"
  then show "0 < AppRelationCount d" by (rule hasRelation_positive_local)
next
  fix rx q d
  assume "assertHolds rx (AssertD ((''relationcount'', BGt 0) # q)) (remoteApplicationFields d)"
  then show "0 < RemoteRelationCount d" by (rule hasRelation_positive_remote)
next
  assume "departingUnitName \<noteq> '''' \<and> \<not> departingUnitServiceMatchesEndpoint E departingUnitName ep
      \<and> applicationsFindOne E st
           [(''_id'', BStr (ApplicationName ep)), (''life'', BLife Dying),
            (''unitcount'', BInt 0), (''relationcount'', BInt 1)] = Inl ErrNotFound"
  then show "removeLocalEndpointOps E st ep departingUnitName =
         Inr [\<lparr>opC = applicationsC, opId = docID E (ApplicationName ep),
               opAssert = AssertOr [[(''life'', BLife Alive)], [(''unitcount'', BGt 0)],
                                    [(''relationcount'', BGt 1)]],
               opInsert = None, opUpdate = UpdateInc [(''relationcount'', - 1)],
               opRemove = False\<rparr>]"
    by (simp add: removeLocalEndpointOps_def hasLastRef_local_def decrementOp_def)
next
  assume "remoteApplicationsFindOne E st
           [(''_id'', BStr (ApplicationName ep)), (''life'', BLife Dying),
            (''relationcount'', BInt 1)] = Inl ErrNotFound"
  then show "removeRemoteEndpointOps E st ep True =
         Inr [\<lparr>opC = remoteApplicationsC, opId = docID E (ApplicationName ep),
               opAssert = AssertOr [[(''life'', BLife Alive)], [(''relationcount'', BGt 1)]],
               opInsert = None, opUpdate = UpdateInc [(''relationcount'', - 1)],
               opRemove = False\<rparr>]"
    by (simp add: removeRemoteEndpointOps_def hasLastRef_remote_def decrementOp_def)
qed

text \<open>
  C4 as stated fails when wordpress/0 departs and mysql is not removable: the decrement of
  mysql's relationcount carries only the disjunction, which an application that is Alive
  with relationcount 0 satisfies.
\<close>

theorem decrement_without_hasRelation_counterexample:
  "removeLocalEndpointOps memEnv
       (store [rel7 Dying 1] [app ''wordpress'' Alive 1 1, app ''mysql'' Alive 1 1] [] [])
       epMysql ''wordpress/0''
     = Inr [\<lparr>opC = ''applications'', opId = ''m:mysql'',
             opAssert = AssertOr [[(''life'', BLife Alive)], [(''unitcount'', BGt 0)],
                                  [(''relationcount'', BGt 1)]],
             opInsert = None, opUpdate = UpdateInc [(''relationcount'', - 1)],
             opRemove = False\<rparr>]
   \<and> assertHolds prefixRegex
        (AssertOr [[(''life'', BLife Alive)], [(''unitcount'', BGt 0)],
                   [(''relationcount'', BGt 1)]])
        (applicationFields (app ''mysql'' Alive 0 0))
   \<and> AppRelationCount (app ''mysql'' Alive 0 0) = 0"
  by code_simp

section \<open>The transaction builder of Destroy\<close>

lemma runFrom_refresh_not_found:
  assumes "0 < attempt" and "Refresh st rel = (Some e, rel')" and "IsNotFound e"
    and "runTransaction E st [] = (None, st')"
  shows "runFrom E (buildTxn E) (Suc budget) attempt st rel = (None, st', rel')"
proof -
  have "buildTxn E st rel attempt = (Inr [], rel')"
    using assms(1-3) by (simp add: buildTxn_def)
  then show ?thesis using assms(4) by simp
qed

text \<open>
  C7. On attempt 0 \<open>buildTxn\<close> does not refresh: it builds from the snapshot it is given
  and leaves it as it is. On every later attempt it refreshes first and builds from the
  refreshed snapshot. When that refresh reports not found, it returns the empty list of
  operations and no error; the executor submits it, and when the store commits the empty
  transaction the loop ends with success. So a \<open>Destroy\<close> whose first transaction is
  aborted and whose refresh then finds nothing returns no error.
\<close>

theorem buildTxn_refresh_and_not_found:
  "buildTxn E st rel 0 = buildOps E st rel
   \<and> snd (buildTxn E st rel 0) = rel
   \<and> (0 < attempt \<and> Refresh st rel = (None, rel')
        \<longrightarrow> buildTxn E st rel attempt = buildOps E st rel')
   \<and> (0 < attempt \<and> Refresh st rel = (Some e, rel') \<and> IsNotFound e
        \<longrightarrow> buildTxn E st rel attempt = (Inr [], rel') \<and> rel' = rel)
   \<and> (0 < attempt \<and> Refresh st rel = (Some e, rel') \<and> IsNotFound e
        \<and> runTransaction E st [] = (None, st')
        \<longrightarrow> runFrom E (buildTxn E) (Suc budget) attempt st rel = (None, st', rel'))
   \<and> (\<not> (length (Endpoints r) = 1 \<and> Role (hd (Endpoints r)) = RolePeer)
        \<and> buildTxn E st r 0 = (Inr ops, r)
        \<and> runTransaction E st ops = (Some ErrAborted, st1)
        \<and> Refresh st1 r = (Some e1, r1) \<and> IsNotFound e1
        \<and> runTransaction E st1 [] = (None, st2)
        \<longrightarrow> Destroy E st r = (None, st2, r\<lparr>Life := Dying\<rparr>))"
proof (intro conjI impI)
  show "buildTxn E st rel 0 = buildOps E st rel"
    by (simp add: buildTxn_def)
  show "snd (buildTxn E st rel 0) = rel"
    by (simp add: buildTxn_def buildOps_def split: sum.splits prod.splits)
next
  assume "0 < attempt \<and> Refresh st rel = (None, rel')"
  then show "buildTxn E st rel attempt = buildOps E st rel'"
    by (simp add: buildTxn_def)
next
  assume a: "0 < attempt \<and> Refresh st rel = (Some e, rel') \<and> IsNotFound e"
  then show "buildTxn E st rel attempt = (Inr [], rel')"
    by (simp add: buildTxn_def)
  from a show "rel' = rel"
    by (auto simp: Refresh_def split: sum.splits if_splits)
next
  assume "0 < attempt \<and> Refresh st rel = (Some e, rel') \<and> IsNotFound e
        \<and> runTransaction E st [] = (None, st')"
  then have h: "0 < attempt" "Refresh st rel = (Some e, rel')" "IsNotFound e"
    "runTransaction E st [] = (None, st')" by simp_all
  show "runFrom E (buildTxn E) (Suc budget) attempt st rel = (None, st', rel')"
    by (rule runFrom_refresh_not_found [OF h])
next
  assume a: "\<not> (length (Endpoints r) = 1 \<and> Role (hd (Endpoints r)) = RolePeer)
        \<and> buildTxn E st r 0 = (Inr ops, r)
        \<and> runTransaction E st ops = (Some ErrAborted, st1)
        \<and> Refresh st1 r = (Some e1, r1) \<and> IsNotFound e1
        \<and> runTransaction E st1 [] = (None, st2)"
  then have h: "Refresh st1 r = (Some e1, r1)" "IsNotFound e1"
    "runTransaction E st1 [] = (None, st2)" by simp_all
  have r1: "r1 = r"
    using h(1) by (auto simp: Refresh_def split: sum.splits if_splits)
  have second: "runFrom E (buildTxn E) (Suc 3) (Suc 0) st1 r = (None, st2, r1)"
    by (rule runFrom_refresh_not_found [OF _ h]) simp
  have "run E (buildTxn E) st r = runFrom E (buildTxn E) (Suc 3) (Suc 0) st1 r"
    using a by (simp add: run_def retryBudget_def numeral_eq_Suc)
  then have "run E (buildTxn E) st r = (None, st2, r1)"
    using second by simp
  then show "Destroy E st r = (None, st2, r\<lparr>Life := Dying\<rparr>)"
    using a by (simp add: Destroy_def)
qed

section \<open>Examples\<close>

theorem destroyOps_units_in_scope_witness:
  "Life (rel7 Alive 2) = Alive \<and> 0 < UnitCount (rel7 Alive 2)
   \<and> destroyOps memEnv (store [rel7 Alive 2] twoApps [] []) (rel7 Alive 2) '''' =
       Inr ([\<lparr>opC = relationsC, opId = DocID (rel7 Alive 2),
               opAssert = AssertD [(''life'', BLife Alive), (''unitcount'', BGt 0)],
               opInsert = None, opUpdate = UpdateSet [(''life'', BLife Dying)],
               opRemove = False\<rparr>], False)"
proof -
  have a: "Life (rel7 Alive 2) = Alive" by code_simp
  have b: "0 < UnitCount (rel7 Alive 2)" by code_simp
  show ?thesis
    using a b destroyOps_units_in_scope [OF a b, of memEnv "store [rel7 Alive 2] twoApps [] []" "''''"]
    by blast
qed

text \<open>
  The transaction removes the document of relation 7 from the store; the snapshot says Dying.
\<close>

theorem Destroy_success_sets_Dying_witness:
  "Destroy memEnv (store [rel7 Alive 0] twoApps [] []) (rel7 Alive 0)
     = (None, store [] [app ''wordpress'' Alive 1 0, app ''mysql'' Alive 1 0] [] [], rel7 Dying 0)
   \<and> Life (rel7 Dying 0) = Dying"
proof -
  have a: "Destroy memEnv (store [rel7 Alive 0] twoApps [] []) (rel7 Alive 0)
     = (None, store [] [app ''wordpress'' Alive 1 0, app ''mysql'' Alive 1 0] [] [], rel7 Dying 0)"
    by code_simp
  show ?thesis using a Destroy_success_sets_Dying [OF a] by blast
qed

theorem Destroy_peer_relation_witness:
  "length (Endpoints (relPeer Alive)) = 1 \<and> Role (hd (Endpoints (relPeer Alive))) = RolePeer
   \<and> Destroy memEnv (store [relPeer Alive] [app ''riak'' Alive 3 1] [] []) (relPeer Alive) =
       (Some (Annotatef (Errorf ''is a peer relation'' []) ''cannot destroy relation %q''
                [Key (relPeer Alive)]),
        store [relPeer Alive] [app ''riak'' Alive 3 1] [] [], relPeer Alive)"
proof -
  have a: "length (Endpoints (relPeer Alive)) = 1" by code_simp
  have b: "Role (hd (Endpoints (relPeer Alive))) = RolePeer" by code_simp
  show ?thesis
    using a b Destroy_peer_relation [OF a b, of memEnv "store [relPeer Alive] [app ''riak'' Alive 3 1] [] []"]
    by blast
qed

theorem Destroy_already_dying_is_noop_witness:
  "Life (rel7 Dead 0) \<noteq> Alive
   \<and> \<not> (length (Endpoints (rel7 Dead 0)) = 1 \<and> Role (hd (Endpoints (rel7 Dead 0))) = RolePeer)
   \<and> destroyOps memEnv (store [rel7 Dead 0] twoApps [] []) (rel7 Dead 0) '''' = Inl errAlreadyDying
   \<and> Destroy memEnv (store [rel7 Dead 0] twoApps [] []) (rel7 Dead 0)
       = (None, store [rel7 Dead 0] twoApps [] [], (rel7 Dead 0)\<lparr>Life := Dying\<rparr>)
   \<and> Destroy memEnv (store [rel7 Dead 0] twoApps [] []) ((rel7 Dead 0)\<lparr>Life := Dying\<rparr>)
       = (None, store [rel7 Dead 0] twoApps [] [], (rel7 Dead 0)\<lparr>Life := Dying\<rparr>)"
proof -
  have a: "Life (rel7 Dead 0) \<noteq> Alive" by code_simp
  have b: "\<not> (length (Endpoints (rel7 Dead 0)) = 1 \<and> Role (hd (Endpoints (rel7 Dead 0))) = RolePeer)"
    by code_simp
  show ?thesis
    using a b Destroy_already_dying_is_noop [OF a b, of memEnv "store [rel7 Dead 0] twoApps [] []" "''''"]
    by blast
qed

theorem Refresh_not_found_witness:
  "map_of (failing (store [] [] [] [])) relationsC = None
   \<and> Refresh (store [] [] [] []) (rel7 Alive 0)
       = (Some (NotFoundf ''relation %v'' [Key (rel7 Alive 0)]), rel7 Alive 0)
   \<and> find (\<lambda>d. DocID d = DocID (rel7 Alive 0)) (relations (store [(rel7 Alive 0)\<lparr>Id_rel := 8\<rparr>] [] [] []))
       = Some ((rel7 Alive 0)\<lparr>Id_rel := 8\<rparr>)
   \<and> Id_rel ((rel7 Alive 0)\<lparr>Id_rel := 8\<rparr>) \<noteq> Id_rel (rel7 Alive 0)
   \<and> Refresh (store [(rel7 Alive 0)\<lparr>Id_rel := 8\<rparr>] [] [] []) (rel7 Alive 0)
       = (Some (NotFoundf ''relation %v'' [Key (rel7 Alive 0)]), rel7 Alive 0)
   \<and> Refresh (store [rel7 Dying 3] [] [] []) (rel7 Alive 0) = (None, rel7 Dying 3)"
proof -
  have f1: "map_of (failing (store [] [] [] [])) relationsC = None" by code_simp
  have n1: "find (\<lambda>d. DocID d = DocID (rel7 Alive 0)) (relations (store [] [] [] [])) = None"
    by code_simp
  have f2: "map_of (failing (store [(rel7 Alive 0)\<lparr>Id_rel := 8\<rparr>] [] [] [])) relationsC = None"
    by code_simp
  have n2: "find (\<lambda>d. DocID d = DocID (rel7 Alive 0))
              (relations (store [(rel7 Alive 0)\<lparr>Id_rel := 8\<rparr>] [] [] []))
            = Some ((rel7 Alive 0)\<lparr>Id_rel := 8\<rparr>)"
    by code_simp
  have i2: "Id_rel ((rel7 Alive 0)\<lparr>Id_rel := 8\<rparr>) \<noteq> Id_rel (rel7 Alive 0)" by code_simp
  have f3: "map_of (failing (store [rel7 Dying 3] [] [] [])) relationsC = None" by code_simp
  have n3: "find (\<lambda>d. DocID d = DocID (rel7 Alive 0)) (relations (store [rel7 Dying 3] [] [] []))
            = Some (rel7 Dying 3)"
    by code_simp
  have i3: "Id_rel (rel7 Dying 3) = Id_rel (rel7 Alive 0)" by code_simp
  show ?thesis
    using f1 n1 n2 i2 n3 i3
      Refresh_not_found [OF f1, of "rel7 Alive 0"]
      Refresh_not_found [OF f2, of "rel7 Alive 0" "(rel7 Alive 0)\<lparr>Id_rel := 8\<rparr>"]
      Refresh_not_found [OF f3, of "rel7 Alive 0" "rel7 Dying 3"]
    by blast
qed

theorem Prepare_settings_cleanup_witness:
  "map_of (failing (store [] [] [] [''m:r#7#wordpress/0'', ''m:r#70#x'', ''m:r#7#mysql/0''])) settingsC
     = None
   \<and> Prepare memEnv \<lparr>Prefix = ''m:r#7#''\<rparr>
        (store [] [] [] [''m:r#7#wordpress/0'', ''m:r#70#x'', ''m:r#7#mysql/0''])
       = Inr [\<lparr>opC = ''settings'', opId = ''m:r#7#wordpress/0'', opAssert = NoAssert,
               opInsert = None, opUpdate = NoUpdate, opRemove = True\<rparr>,
              \<lparr>opC = ''settings'', opId = ''m:r#7#mysql/0'', opAssert = NoAssert,
               opInsert = None, opUpdate = NoUpdate, opRemove = True\<rparr>]
   \<and> Prepare memEnv \<lparr>Prefix = ''m:r#7#''\<rparr>
        ((store [] [] [] [''m:r#7#wordpress/0'', ''m:r#70#x'', ''m:r#7#mysql/0''])
           \<lparr>settings := filter (\<lambda>i. \<not> regexMatch memEnv (''^'' @ Prefix \<lparr>Prefix = ''m:r#7#''\<rparr>) i)
              (settings (store [] [] [] [''m:r#7#wordpress/0'', ''m:r#70#x'', ''m:r#7#mysql/0'']))\<rparr>)
       = Inl ErrChangeComplete"
proof -
  have f: "map_of (failing (store [] [] [] [''m:r#7#wordpress/0'', ''m:r#70#x'', ''m:r#7#mysql/0''])) settingsC
     = None" by code_simp
  have p: "Prepare memEnv \<lparr>Prefix = ''m:r#7#''\<rparr>
        (store [] [] [] [''m:r#7#wordpress/0'', ''m:r#70#x'', ''m:r#7#mysql/0''])
       = Inr [\<lparr>opC = ''settings'', opId = ''m:r#7#wordpress/0'', opAssert = NoAssert,
               opInsert = None, opUpdate = NoUpdate, opRemove = True\<rparr>,
              \<lparr>opC = ''settings'', opId = ''m:r#7#mysql/0'', opAssert = NoAssert,
               opInsert = None, opUpdate = NoUpdate, opRemove = True\<rparr>]"
    by code_simp
  show ?thesis
    using f p Prepare_settings_cleanup [OF f, of memEnv "\<lparr>Prefix = ''m:r#7#''\<rparr>"]
    by blast
qed

text \<open>
  The relation 7 between wordpress and mysql: destroyed with no unit in scope, and removed
  when the unit wordpress/0 departs.
\<close>

theorem removal_set_self_op_and_cleanup_witness:
  "(\<exists>ops epOps.
      destroyOps memEnv (store [rel7 Alive 0] twoApps [] []) (rel7 Alive 0) '''' = Inr (ops, True)
      \<and> removeEndpointsOps memEnv (store [rel7 Alive 0] twoApps [] []) '''' ''''
            (Endpoints (rel7 Alive 0)) [] = Inr epOps
      \<and> ops =
          \<lparr>opC = relationsC, opId = DocID (rel7 Alive 0),
            opAssert = AssertD [(''life'', BLife Alive), (''unitcount'', BInt 0)],
            opInsert = None, opUpdate = NoUpdate, opRemove = True\<rparr>
          # epOps
          @ [newCleanupOp memEnv cleanupRelationSettings
               (''r#'' @ Sprint_d (Id_rel (rel7 Alive 0)) @ ''#'')])
   \<and> (\<exists>ops epOps.
      removeOps memEnv (store [rel7 Dying 1] twoApps [] []) (rel7 Dying 1) '''' ''wordpress/0''
        = Inr ops
      \<and> removeEndpointsOps memEnv (store [rel7 Dying 1] twoApps [] []) '''' ''wordpress/0''
            (Endpoints (rel7 Dying 1)) [] = Inr epOps
      \<and> ops =
          \<lparr>opC = relationsC, opId = DocID (rel7 Dying 1),
            opAssert = AssertD [(''life'', BLife Dying), (''unitcount'', BInt 1)],
            opInsert = None, opUpdate = NoUpdate, opRemove = True\<rparr>
          # epOps
          @ [newCleanupOp memEnv cleanupRelationSettings
               (''r#'' @ Sprint_d (Id_rel (rel7 Dying 1)) @ ''#'')])"
proof -
  let ?S1 = "store [rel7 Alive 0] twoApps [] []"
  let ?S2 = "store [rel7 Dying 1] twoApps [] []"
  let ?ops1 = "[\<lparr>opC = ''relations'', opId = ''m:wordpress:db mysql:server'',
          opAssert = AssertD [(''life'', BLife Alive), (''unitcount'', BInt 0)],
          opInsert = None, opUpdate = NoUpdate, opRemove = True\<rparr>,
       \<lparr>opC = ''applications'', opId = ''m:wordpress'',
          opAssert = AssertD [(''relationcount'', BGt 0), (''life'', BLife Alive)],
          opInsert = None, opUpdate = UpdateInc [(''relationcount'', - 1)],
          opRemove = False\<rparr>,
       \<lparr>opC = ''applications'', opId = ''m:mysql'',
          opAssert = AssertD [(''relationcount'', BGt 0), (''life'', BLife Alive)],
          opInsert = None, opUpdate = UpdateInc [(''relationcount'', - 1)],
          opRemove = False\<rparr>,
       \<lparr>opC = ''cleanups'', opId = ''c1'', opAssert = NoAssert,
          opInsert = Some [(''kind'', BStr ''relationSettings''), (''prefix'', BStr ''r#7#'')],
          opUpdate = NoUpdate, opRemove = False\<rparr>]"
  let ?ops2 = "[\<lparr>opC = ''relations'', opId = ''m:wordpress:db mysql:server'',
          opAssert = AssertD [(''life'', BLife Dying), (''unitcount'', BInt 1)],
          opInsert = None, opUpdate = NoUpdate, opRemove = True\<rparr>,
       \<lparr>opC = ''applications'', opId = ''m:wordpress'',
          opAssert = AssertD [(''relationcount'', BGt 0), (''unitcount'', BGt 0)],
          opInsert = None, opUpdate = UpdateInc [(''relationcount'', - 1)],
          opRemove = False\<rparr>,
       \<lparr>opC = ''applications'', opId = ''m:mysql'',
          opAssert = AssertOr [[(''life'', BLife Alive)], [(''unitcount'', BGt 0)],
                               [(''relationcount'', BGt 1)]],
          opInsert = None, opUpdate = UpdateInc [(''relationcount'', - 1)],
          opRemove = False\<rparr>,
       \<lparr>opC = ''cleanups'', opId = ''c1'', opAssert = NoAssert,
          opInsert = Some [(''kind'', BStr ''relationSettings''), (''prefix'', BStr ''r#7#'')],
          opUpdate = NoUpdate, opRemove = False\<rparr>]"
  have a: "Life (rel7 Alive 0) = Alive \<and> UnitCount (rel7 Alive 0) = 0
      \<and> destroyOps memEnv ?S1 (rel7 Alive 0) '''' = Inr (?ops1, True)"
    by code_simp
  have b: "''wordpress/0'' \<noteq> '''' \<and>
      removeOps memEnv ?S2 (rel7 Dying 1) '''' ''wordpress/0'' = Inr ?ops2"
    by code_simp
  note t1 = removal_set_self_op_and_cleanup
    [where r = "rel7 Alive 0" and E = memEnv and st = ?S1 and ignoreService = "''''"
       and ops = ?ops1 and isRemove = True]
  note t2 = removal_set_self_op_and_cleanup
    [where r = "rel7 Dying 1" and E = memEnv and st = ?S2 and ignoreService = "''''"
       and departingUnitName = "''wordpress/0''" and ops' = ?ops2]
  from t1 a have c1: "\<exists>epOps.
      removeEndpointsOps memEnv ?S1 '''' '''' (Endpoints (rel7 Alive 0)) [] = Inr epOps
      \<and> ?ops1 =
          \<lparr>opC = relationsC, opId = DocID (rel7 Alive 0),
            opAssert = AssertD [(''life'', BLife Alive), (''unitcount'', BInt 0)],
            opInsert = None, opUpdate = NoUpdate, opRemove = True\<rparr>
          # epOps
          @ [newCleanupOp memEnv cleanupRelationSettings
               (''r#'' @ Sprint_d (Id_rel (rel7 Alive 0)) @ ''#'')]"
    by blast
  from t2 b have c2: "\<exists>epOps.
      removeEndpointsOps memEnv ?S2 '''' ''wordpress/0'' (Endpoints (rel7 Dying 1)) [] = Inr epOps
      \<and> ?ops2 =
          \<lparr>opC = relationsC, opId = DocID (rel7 Dying 1),
            opAssert = AssertD [(''life'', BLife Dying), (''unitcount'', BInt 1)],
            opInsert = None, opUpdate = NoUpdate, opRemove = True\<rparr>
          # epOps
          @ [newCleanupOp memEnv cleanupRelationSettings
               (''r#'' @ Sprint_d (Id_rel (rel7 Dying 1)) @ ''#'')]"
    by blast
  from a c1 b c2 show ?thesis by blast
qed

theorem decrement_assertions_witness:
  "removeLocalEndpointOps memEnv (store [rel7 Dying 1] twoApps [] []) epWordpress ''wordpress/0'' =
     Inr [\<lparr>opC = applicationsC, opId = docID memEnv (ApplicationName epWordpress),
           opAssert = AssertD [(''relationcount'', BGt 0), (''unitcount'', BGt 0)],
           opInsert = None, opUpdate = UpdateInc [(''relationcount'', - 1)],
           opRemove = False\<rparr>]
   \<and> removeLocalEndpointOps memEnv (store [rel7 Dying 1] twoApps [] []) epMysql ''wordpress/0'' =
     Inr [\<lparr>opC = applicationsC, opId = docID memEnv (ApplicationName epMysql),
           opAssert = AssertOr [[(''life'', BLife Alive)], [(''unitcount'', BGt 0)],
                                [(''relationcount'', BGt 1)]],
           opInsert = None, opUpdate = UpdateInc [(''relationcount'', - 1)],
           opRemove = False\<rparr>]
   \<and> removeRemoteEndpointOps memEnv
         (store [rel7 Dying 1] [app ''wordpress'' Alive 1 1] [remoteApp ''mysql'' Alive 1] [])
         epMysql True =
     Inr [\<lparr>opC = remoteApplicationsC, opId = docID memEnv (ApplicationName epMysql),
           opAssert = AssertOr [[(''life'', BLife Alive)], [(''relationcount'', BGt 1)]],
           opInsert = None, opUpdate = UpdateInc [(''relationcount'', - 1)],
           opRemove = False\<rparr>]
   \<and> assertHolds prefixRegex (AssertD [(''relationcount'', BGt 0), (''life'', BLife Alive)])
         (applicationFields (app ''mysql'' Alive 1 1))
   \<and> 0 < AppRelationCount (app ''mysql'' Alive 1 1)
   \<and> assertHolds prefixRegex (AssertD [(''relationcount'', BGt 0), (''life'', BLife Alive)])
         (remoteApplicationFields (remoteApp ''mysql'' Alive 1))
   \<and> 0 < RemoteRelationCount (remoteApp ''mysql'' Alive 1)"
proof -
  let ?S = "store [rel7 Dying 1] twoApps [] []"
  let ?R = "store [rel7 Dying 1] [app ''wordpress'' Alive 1 1] [remoteApp ''mysql'' Alive 1] []"
  have own: "''wordpress/0'' \<noteq> '''' \<and>
      departingUnitServiceMatchesEndpoint memEnv ''wordpress/0'' epWordpress"
    by code_simp
  have other: "''wordpress/0'' \<noteq> '''' \<and>
      \<not> departingUnitServiceMatchesEndpoint memEnv ''wordpress/0'' epMysql
      \<and> applicationsFindOne memEnv ?S
           [(''_id'', BStr (ApplicationName epMysql)), (''life'', BLife Dying),
            (''unitcount'', BInt 0), (''relationcount'', BInt 1)] = Inl ErrNotFound"
    by code_simp
  have remote: "remoteApplicationsFindOne memEnv ?R
           [(''_id'', BStr (ApplicationName epMysql)), (''life'', BLife Dying),
            (''relationcount'', BInt 1)] = Inl ErrNotFound"
    by code_simp
  have la: "assertHolds prefixRegex (AssertD [(''relationcount'', BGt 0), (''life'', BLife Alive)])
         (applicationFields (app ''mysql'' Alive 1 1))"
    by code_simp
  have ra: "assertHolds prefixRegex (AssertD [(''relationcount'', BGt 0), (''life'', BLife Alive)])
         (remoteApplicationFields (remoteApp ''mysql'' Alive 1))"
    by code_simp
  note t1 = decrement_assertions
    [where E = memEnv and st = ?S and ep = epWordpress and departingUnitName = "''wordpress/0''"]
  note t2 = decrement_assertions
    [where E = memEnv and st = ?S and ep = epMysql and departingUnitName = "''wordpress/0''"]
  note t3 = decrement_assertions
    [where E = memEnv and st = ?R and ep = epMysql and departingUnitName = "''wordpress/0''"]
  from t1 own have c1:
    "removeLocalEndpointOps memEnv ?S epWordpress ''wordpress/0'' =
     Inr [\<lparr>opC = applicationsC, opId = docID memEnv (ApplicationName epWordpress),
           opAssert = AssertD [(''relationcount'', BGt 0), (''unitcount'', BGt 0)],
           opInsert = None, opUpdate = UpdateInc [(''relationcount'', - 1)],
           opRemove = False\<rparr>]"
    by blast
  from t2 other have c2:
    "removeLocalEndpointOps memEnv ?S epMysql ''wordpress/0'' =
     Inr [\<lparr>opC = applicationsC, opId = docID memEnv (ApplicationName epMysql),
           opAssert = AssertOr [[(''life'', BLife Alive)], [(''unitcount'', BGt 0)],
                                [(''relationcount'', BGt 1)]],
           opInsert = None, opUpdate = UpdateInc [(''relationcount'', - 1)],
           opRemove = False\<rparr>]"
    by blast
  from t3 remote have c3:
    "removeRemoteEndpointOps memEnv ?R epMysql True =
     Inr [\<lparr>opC = remoteApplicationsC, opId = docID memEnv (ApplicationName epMysql),
           opAssert = AssertOr [[(''life'', BLife Alive)], [(''relationcount'', BGt 1)]],
           opInsert = None, opUpdate = UpdateInc [(''relationcount'', - 1)],
           opRemove = False\<rparr>]"
    by blast
  from t1 la have c4: "0 < AppRelationCount (app ''mysql'' Alive 1 1)" by blast
  from t1 ra have c5: "0 < RemoteRelationCount (remoteApp ''mysql'' Alive 1)" by blast
  from c1 c2 c3 la c4 ra c5 show ?thesis by blast
qed

theorem endpoint_removal_for_departing_unit_witness:
  "removeLocalEndpointOps memEnv
       (store [rel7 Dying 1] [app ''wordpress'' Alive 1 1, app ''mysql'' Dying 0 1] [] [])
       epMysql ''wordpress/0''
     = applicationRemoveOps memEnv
         (store [rel7 Dying 1] [app ''wordpress'' Alive 1 1, app ''mysql'' Dying 0 1] [] [])
         (app ''mysql'' Dying 0 1)
         [(''life'', BLife Dying), (''unitcount'', BInt 0), (''relationcount'', BInt 1)]
   \<and> removeLocalEndpointOps memEnv (store [rel7 Dying 1] twoApps [] []) epMysql ''wordpress/0''
     = Inr [\<lparr>opC = applicationsC, opId = docID memEnv (ApplicationName epMysql),
             opAssert = AssertOr [[(''life'', BLife Alive)], [(''unitcount'', BGt 0)],
                                  [(''relationcount'', BGt 1)]],
             opInsert = None, opUpdate = UpdateInc [(''relationcount'', - 1)],
             opRemove = False\<rparr>]
   \<and> removeLocalEndpointOps memEnv (store [rel7 Dying 1] twoApps [] []) epWordpress
         ''wordpress/0''
     = Inr [\<lparr>opC = applicationsC, opId = docID memEnv (ApplicationName epWordpress),
             opAssert = AssertD [(''relationcount'', BGt 0), (''unitcount'', BGt 0)],
             opInsert = None, opUpdate = UpdateInc [(''relationcount'', - 1)],
             opRemove = False\<rparr>]
   \<and> removeRemoteEndpointOps memEnv
         (store [rel7 Dying 1] [app ''wordpress'' Alive 1 1] [remoteApp ''mysql'' Dying 1] [])
         epMysql True
     = Inr (remoteApplicationRemoveOps memEnv
              (store [rel7 Dying 1] [app ''wordpress'' Alive 1 1] [remoteApp ''mysql'' Dying 1] [])
              (remoteApp ''mysql'' Dying 1)
              [(''life'', BLife Dying), (''relationcount'', BInt 1)])
   \<and> assertHolds prefixRegex
        (AssertOr [[(''life'', BLife Alive)], [(''unitcount'', BGt 0)],
                   [(''relationcount'', BGt 1)]])
        (applicationFields (app ''mysql'' Dying 0 2))
   \<and> \<not> (AppLife (app ''mysql'' Dying 0 2) = Dying \<and> AppUnitCount (app ''mysql'' Dying 0 2) = 0
          \<and> AppRelationCount (app ''mysql'' Dying 0 2) = 1)"
proof -
  let ?S = "store [rel7 Dying 1] [app ''wordpress'' Alive 1 1, app ''mysql'' Dying 0 1] [] []"
  let ?T = "store [rel7 Dying 1] twoApps [] []"
  let ?R = "store [rel7 Dying 1] [app ''wordpress'' Alive 1 1] [remoteApp ''mysql'' Dying 1] []"
  have h1: "''wordpress/0'' \<noteq> '''' \<and>
      \<not> departingUnitServiceMatchesEndpoint memEnv ''wordpress/0'' epMysql
      \<and> map_of (failing ?S) applicationsC = None"
    by code_simp
  have f1: "find (\<lambda>d. AppDocID d = docID memEnv (ApplicationName epMysql) \<and> AppLife d = Dying
                        \<and> AppUnitCount d = 0 \<and> AppRelationCount d = 1) (applications ?S)
              = Some (app ''mysql'' Dying 0 1)"
    by code_simp
  have h2: "''wordpress/0'' \<noteq> '''' \<and>
      \<not> departingUnitServiceMatchesEndpoint memEnv ''wordpress/0'' epMysql
      \<and> map_of (failing ?T) applicationsC = None"
    by code_simp
  have f2: "find (\<lambda>d. AppDocID d = docID memEnv (ApplicationName epMysql) \<and> AppLife d = Dying
                        \<and> AppUnitCount d = 0 \<and> AppRelationCount d = 1) (applications ?T)
              = None"
    by code_simp
  have h3: "''wordpress/0'' \<noteq> '''' \<and>
      departingUnitServiceMatchesEndpoint memEnv ''wordpress/0'' epWordpress"
    by code_simp
  have h4: "map_of (failing ?R) remoteApplicationsC = None"
    by code_simp
  have f4: "find (\<lambda>d. RemoteDocID d = docID memEnv (ApplicationName epMysql)
                        \<and> RemoteLife d = Dying \<and> RemoteRelationCount d = 1)
                 (remoteApplications ?R)
              = Some (remoteApp ''mysql'' Dying 1)"
    by code_simp
  have a5: "assertHolds prefixRegex
        (AssertOr [[(''life'', BLife Alive)], [(''unitcount'', BGt 0)],
                   [(''relationcount'', BGt 1)]])
        (applicationFields (app ''mysql'' Dying 0 2))"
    by code_simp
  note t1 = endpoint_removal_for_departing_unit
    [where E = memEnv and st = ?S and ep = epMysql and departingUnitName = "''wordpress/0''"]
  note t2 = endpoint_removal_for_departing_unit
    [where E = memEnv and st = ?T and ep = epMysql and departingUnitName = "''wordpress/0''"]
  note t3 = endpoint_removal_for_departing_unit
    [where E = memEnv and st = ?T and ep = epWordpress and departingUnitName = "''wordpress/0''"]
  note t4 = endpoint_removal_for_departing_unit
    [where E = memEnv and st = ?R and ep = epMysql and departingUnitName = "''wordpress/0''"]
  have c1: "removeLocalEndpointOps memEnv ?S epMysql ''wordpress/0''
     = applicationRemoveOps memEnv ?S (app ''mysql'' Dying 0 1)
         [(''life'', BLife Dying), (''unitcount'', BInt 0), (''relationcount'', BInt 1)]"
    using conjunct1 [OF t1, rule_format, OF h1] unfolding f1 by simp
  have c2: "removeLocalEndpointOps memEnv ?T epMysql ''wordpress/0''
     = Inr [\<lparr>opC = applicationsC, opId = docID memEnv (ApplicationName epMysql),
             opAssert = AssertOr [[(''life'', BLife Alive)], [(''unitcount'', BGt 0)],
                                  [(''relationcount'', BGt 1)]],
             opInsert = None, opUpdate = UpdateInc [(''relationcount'', - 1)],
             opRemove = False\<rparr>]"
    using conjunct1 [OF t2, rule_format, OF h2] unfolding f2 by simp
  from t3 h3 have c3: "removeLocalEndpointOps memEnv ?T epWordpress ''wordpress/0''
     = Inr [\<lparr>opC = applicationsC, opId = docID memEnv (ApplicationName epWordpress),
             opAssert = AssertD [(''relationcount'', BGt 0), (''unitcount'', BGt 0)],
             opInsert = None, opUpdate = UpdateInc [(''relationcount'', - 1)],
             opRemove = False\<rparr>]"
    by blast
  have c4: "removeRemoteEndpointOps memEnv ?R epMysql True
     = Inr (remoteApplicationRemoveOps memEnv ?R (remoteApp ''mysql'' Dying 1)
              [(''life'', BLife Dying), (''relationcount'', BInt 1)])"
    using conjunct1 [OF conjunct2 [OF conjunct2 [OF t4]], rule_format, OF h4] unfolding f4
    by simp
  from t1 a5 have c5: "\<not> (AppLife (app ''mysql'' Dying 0 2) = Dying
      \<and> AppUnitCount (app ''mysql'' Dying 0 2) = 0 \<and> AppRelationCount (app ''mysql'' Dying 0 2) = 1)"
    by blast
  from c1 c2 c3 c4 a5 c5 show ?thesis by blast
qed

theorem buildTxn_refresh_and_not_found_witness:
  "(\<exists>ops. buildTxn memEnv (store [] twoApps [] []) (rel7 Alive 0) 0 = (Inr ops, rel7 Alive 0)
        \<and> runTransaction memEnv (store [] twoApps [] []) ops
            = (Some ErrAborted, store [] twoApps [] []))
   \<and> Refresh (store [] twoApps [] []) (rel7 Alive 0)
       = (Some (NotFoundf ''relation %v'' [''wordpress:db mysql:server'']), rel7 Alive 0)
   \<and> runTransaction memEnv (store [] twoApps [] []) [] = (None, store [] twoApps [] [])
   \<and> buildTxn memEnv (store [] twoApps [] []) (rel7 Alive 0) 1 = (Inr [], rel7 Alive 0)
   \<and> runFrom memEnv (buildTxn memEnv) (Suc 3) 1 (store [] twoApps [] []) (rel7 Alive 0)
       = (None, store [] twoApps [] [], rel7 Alive 0)
   \<and> Destroy memEnv (store [] twoApps [] []) (rel7 Alive 0)
       = (None, store [] twoApps [] [], (rel7 Alive 0)\<lparr>Life := Dying\<rparr>)
   \<and> Refresh (store [rel7 Dying 2] twoApps [] []) (rel7 Alive 0) = (None, rel7 Dying 2)
   \<and> buildTxn memEnv (store [rel7 Dying 2] twoApps [] []) (rel7 Alive 0) 1
       = buildOps memEnv (store [rel7 Dying 2] twoApps [] []) (rel7 Dying 2)"
proof -
  let ?S = "store [] twoApps [] []"
  let ?U = "store [rel7 Dying 2] twoApps [] []"
  let ?e = "NotFoundf ''relation %v'' [''wordpress:db mysql:server'']"
  let ?ops = "[\<lparr>opC = ''relations'', opId = ''m:wordpress:db mysql:server'',
          opAssert = AssertD [(''life'', BLife Alive), (''unitcount'', BInt 0)],
          opInsert = None, opUpdate = NoUpdate, opRemove = True\<rparr>,
       \<lparr>opC = ''applications'', opId = ''m:wordpress'',
          opAssert = AssertD [(''relationcount'', BGt 0), (''life'', BLife Alive)],
          opInsert = None, opUpdate = UpdateInc [(''relationcount'', - 1)],
          opRemove = False\<rparr>,
       \<lparr>opC = ''applications'', opId = ''m:mysql'',
          opAssert = AssertD [(''relationcount'', BGt 0), (''life'', BLife Alive)],
          opInsert = None, opUpdate = UpdateInc [(''relationcount'', - 1)],
          opRemove = False\<rparr>,
       \<lparr>opC = ''cleanups'', opId = ''c1'', opAssert = NoAssert,
          opInsert = Some [(''kind'', BStr ''relationSettings''), (''prefix'', BStr ''r#7#'')],
          opUpdate = NoUpdate, opRemove = False\<rparr>]"
  have np: "\<not> (length (Endpoints (rel7 Alive 0)) = 1
              \<and> Role (hd (Endpoints (rel7 Alive 0))) = RolePeer)"
    by code_simp
  have b0: "buildTxn memEnv ?S (rel7 Alive 0) 0 = (Inr ?ops, rel7 Alive 0)"
    by code_simp
  have ab: "runTransaction memEnv ?S ?ops = (Some ErrAborted, ?S)"
    by code_simp
  have rf: "Refresh ?S (rel7 Alive 0) = (Some ?e, rel7 Alive 0)"
    by code_simp
  have nf: "IsNotFound ?e" by simp
  have em: "runTransaction memEnv ?S [] = (None, ?S)"
    by code_simp
  have ru: "Refresh ?U (rel7 Alive 0) = (None, rel7 Dying 2)"
    by code_simp
  have one: "(0::nat) < 1" by simp
  note t = buildTxn_refresh_and_not_found
    [where E = memEnv and st = ?S and rel = "rel7 Alive 0" and attempt = 1
       and rel' = "rel7 Alive 0" and e = ?e and st' = ?S and budget = 3
       and r = "rel7 Alive 0" and ops = ?ops and ?st1.0 = ?S and ?e1.0 = ?e
       and ?r1.0 = "rel7 Alive 0" and ?st2.0 = ?S]
  note u = buildTxn_refresh_and_not_found
    [where E = memEnv and st = ?U and rel = "rel7 Alive 0" and attempt = 1
       and rel' = "rel7 Dying 2"]
  from t one rf nf have c1: "buildTxn memEnv ?S (rel7 Alive 0) 1 = (Inr [], rel7 Alive 0)"
    by blast
  from t one rf nf em have c2:
    "runFrom memEnv (buildTxn memEnv) (Suc 3) 1 ?S (rel7 Alive 0) = (None, ?S, rel7 Alive 0)"
    by blast
  from t np b0 ab rf nf em have c3:
    "Destroy memEnv ?S (rel7 Alive 0) = (None, ?S, (rel7 Alive 0)\<lparr>Life := Dying\<rparr>)"
    by blast
  from u one ru have c4:
    "buildTxn memEnv ?U (rel7 Alive 0) 1 = buildOps memEnv ?U (rel7 Dying 2)"
    by blast
  from b0 ab rf em c1 c2 c3 ru c4 show ?thesis by blast
qed

end
